theory Spec2Isabelle
  imports Main
begin

section \<open>Results of asynchronous operations\<close>

text \<open>
  Every \<^verbatim>\<open>async\<close> function of the sources returns a promise. A promise either resolves
  with a value, rejects with an error (what \<^verbatim>\<open>await\<close> rethrows), or never settles.
  The last case is real: a listener without a timer waits for ever when no callback
  arrives.
\<close>

datatype errno = ENOENT | EACCES | EADDRINUSE

datatype error =
    FsError errno
  | SyntaxError
  | FetchFailed
  | TokenExchangeFailed nat string
  | TokenRefreshFailed nat string
  | OAuthError string
  | AuthorizationDenied
  | StateMismatch
  | CallbackTimeout
  | ListenError errno

datatype 'a promise = Resolved 'a | Rejected error | Pending

section \<open>Token data (token-store.ts)\<close>

text \<open>
  A JavaScript \<^verbatim>\<open>number\<close>: a finite value, \<^verbatim>\<open>NaN\<close>, \<^verbatim>\<open>Infinity\<close> or
  \<^verbatim>\<open>-Infinity\<close>. The numbers of this program are timestamps and durations in
  milliseconds and seconds, so a finite value is kept as an integer: fractions, the
  rounding of doubles beyond \<^verbatim>\<open>2 ** 53\<close>, overflow to infinity and the sign of zero are
  outside the model.
\<close>

datatype number = Finite int | NaN | PosInfinity | NegInfinity

text \<open>The operators \<^verbatim>\<open>+\<close>, unary \<^verbatim>\<open>-\<close>, \<^verbatim>\<open>-\<close>, \<^verbatim>\<open>*\<close>, \<^verbatim>\<open><=\<close> and \<^verbatim>\<open><\<close> on numbers.\<close>

fun number_add :: "number \<Rightarrow> number \<Rightarrow> number" where
  "number_add (Finite a) (Finite b) = Finite (a + b)"
| "number_add NaN y = NaN"
| "number_add x NaN = NaN"
| "number_add PosInfinity NegInfinity = NaN"
| "number_add NegInfinity PosInfinity = NaN"
| "number_add PosInfinity y = PosInfinity"
| "number_add NegInfinity y = NegInfinity"
| "number_add (Finite a) y = y"

fun number_neg :: "number \<Rightarrow> number" where
  "number_neg (Finite a) = Finite (- a)"
| "number_neg NaN = NaN"
| "number_neg PosInfinity = NegInfinity"
| "number_neg NegInfinity = PosInfinity"

definition number_sub :: "number \<Rightarrow> number \<Rightarrow> number" where
  "number_sub x y = number_add x (number_neg y)"

fun number_sgn :: "number \<Rightarrow> int" where
  "number_sgn (Finite a) = sgn a"
| "number_sgn PosInfinity = 1"
| "number_sgn NegInfinity = - 1"
| "number_sgn NaN = 0"

fun number_mul :: "number \<Rightarrow> number \<Rightarrow> number" where
  "number_mul (Finite a) (Finite b) = Finite (a * b)"
| "number_mul NaN y = NaN"
| "number_mul x NaN = NaN"
| "number_mul x y =
     (if number_sgn x * number_sgn y = 0 then NaN
      else if number_sgn x * number_sgn y > 0 then PosInfinity
      else NegInfinity)"

fun number_le :: "number \<Rightarrow> number \<Rightarrow> bool" where
  "number_le (Finite a) (Finite b) = (a \<le> b)"
| "number_le NaN y = False"
| "number_le x NaN = False"
| "number_le NegInfinity y = True"
| "number_le x PosInfinity = True"
| "number_le x y = False"

fun number_lt :: "number \<Rightarrow> number \<Rightarrow> bool" where
  "number_lt (Finite a) (Finite b) = (a < b)"
| "number_lt NaN y = False"
| "number_lt x NaN = False"
| "number_lt PosInfinity y = False"
| "number_lt x NegInfinity = False"
| "number_lt x y = True"

text \<open>
  \<^verbatim>\<open>interface TokenData { access_token: string; refresh_token: string;
  expires_at: number; scope: string }\<close>. \<^verbatim>\<open>expires_at\<close> is meant as a Unix timestamp
  in milliseconds; its type admits every number.
\<close>

record TokenData =
  access_token :: string
  refresh_token :: string
  expires_at :: number
  scope :: string

text \<open>
  The JavaScript values that \<^verbatim>\<open>JSON.parse\<close> returns and that \<^verbatim>\<open>JSON.stringify\<close>
  is given here: \<^verbatim>\<open>null\<close>, booleans, numbers, strings, arrays and plain objects.
\<close>

datatype json =
    JNull
  | JBool bool
  | JNum number
  | JStr string
  | JArr "json list"
  | JObj "(string \<times> json) list"

text \<open>
  Property access \<^verbatim>\<open>o.k\<close> on a parsed value. When a JSON text repeats a key the
  last occurrence is the property's value; a missing property reads as
  \<^verbatim>\<open>undefined\<close> (\<open>None\<close>). Arrays and primitives have none of the four
  properties read here.
\<close>

fun property :: "json \<Rightarrow> string \<Rightarrow> json option" where
  "property (JObj kvs) k = map_of (rev kvs) k"
| "property _ k = None"

fun is_string :: "json option \<Rightarrow> bool" where
  "is_string (Some (JStr s)) = True"
| "is_string _ = False"

fun is_number :: "json option \<Rightarrow> bool" where
  "is_number (Some (JNum n)) = True"
| "is_number _ = False"

fun is_object :: "json \<Rightarrow> bool" where
  "is_object (JObj kvs) = True"
| "is_object (JArr vs) = True"
| "is_object _ = False"

text \<open>
  \<^verbatim>\<open>isValidTokenData\<close>: \<^verbatim>\<open>typeof v === "object"\<close> and not \<^verbatim>\<open>null\<close>, then the four
  \<^verbatim>\<open>typeof\<close> tests on its properties.
\<close>

definition isValidTokenData :: "json \<Rightarrow> bool" where
  "isValidTokenData v =
     (if \<not> is_object v then False
      else is_string (property v ''access_token'') \<and>
           is_string (property v ''refresh_token'') \<and>
           is_number (property v ''expires_at'') \<and>
           is_string (property v ''scope''))"

text \<open>
  The validated object seen through the \<^verbatim>\<open>TokenData\<close> interface: its four
  properties. The fallbacks are never read, since the conversion is applied only to a
  value that passed \<^verbatim>\<open>isValidTokenData\<close>.
\<close>

fun str_of :: "json option \<Rightarrow> string" where
  "str_of (Some (JStr s)) = s"
| "str_of _ = []"

fun num_of :: "json option \<Rightarrow> number" where
  "num_of (Some (JNum n)) = n"
| "num_of _ = NaN"

definition as_TokenData :: "json \<Rightarrow> TokenData" where
  "as_TokenData v =
     \<lparr>access_token = str_of (property v ''access_token''),
      refresh_token = str_of (property v ''refresh_token''),
      expires_at = num_of (property v ''expires_at''),
      scope = str_of (property v ''scope'')\<rparr>"

text \<open>The object that \<^verbatim>\<open>JSON.stringify(tokens, null, 2)\<close> serialises.\<close>

definition json_of_TokenData :: "TokenData \<Rightarrow> json" where
  "json_of_TokenData t =
     JObj [(''access_token'', JStr (access_token t)),
           (''refresh_token'', JStr (refresh_token t)),
           (''expires_at'', JNum (expires_at t)),
           (''scope'', JStr (scope t))]"

definition EXPIRY_BUFFER_MS :: int where
  "EXPIRY_BUFFER_MS = 60000"

section \<open>The environment\<close>

subsection \<open>The token file and its directory\<close>

text \<open>
  The store touches one path, \<^verbatim>\<open>filePath\<close>, and its parent
  \<^verbatim>\<open>dirname(filePath)\<close>. A file cannot exist without its directory, so the state is
  a directory (with its mode) that holds the file or not. Modes are the permission bits
  as numbers: \<^verbatim>\<open>0o600\<close> is 384, \<^verbatim>\<open>0o700\<close> is 448. The process owns both nodes
  and is not the superuser, so access follows the owner bits; the umask is taken not to
  clear owner bits.
\<close>

record token_file =
  content :: string
  mode :: nat

datatype directory = NoDir | Dir nat "token_file option"

definition mode_0o600 :: nat where
  "mode_0o600 = 384"

definition mode_0o700 :: nat where
  "mode_0o700 = 448"

definition owner_can_read :: "nat \<Rightarrow> bool" where
  "owner_can_read m = bit m 8"

definition owner_can_write :: "nat \<Rightarrow> bool" where
  "owner_can_write m = bit m 7"

definition owner_can_search :: "nat \<Rightarrow> bool" where
  "owner_can_search m = bit m 6"

text \<open>No permission bit for the group or for others: the low six bits are clear.\<close>

definition owner_only :: "nat \<Rightarrow> bool" where
  "owner_only m = (m mod 64 = 0)"

subsection \<open>The token endpoint, the callback port, the process\<close>

text \<open>
  What \<^verbatim>\<open>res.json()\<close> yields on a success response, as the source casts it:
  \<^verbatim>\<open>{access_token, refresh_token, expires_in, scope}\<close>. The cast checks nothing;
  \<open>json_expires_in\<close> is the number that \<^verbatim>\<open>json.expires_in * 1000\<close> reads from the
  property, which is \<^verbatim>\<open>NaN\<close> when the body has no \<^verbatim>\<open>expires_in\<close>.
\<close>

record token_response =
  json_access_token :: string
  json_refresh_token :: string
  json_expires_in :: number
  json_scope :: string

text \<open>
  What a \<^verbatim>\<open>fetch\<close> of the token endpoint meets: the request fails (the promise
  rejects), or a response arrives with a status, a body text, and the body as JSON when
  it parses (\<^verbatim>\<open>res.json()\<close> throws otherwise).
\<close>

datatype fetch_outcome = NetworkFailure | Response nat string "token_response option"

text \<open>
  An inbound request to the callback server after \<^verbatim>\<open>new URL(req.url, ...)\<close>: the
  path and the query parameters in order.
\<close>

record request =
  pathname :: string
  searchParams :: "(string \<times> string) list"

datatype page = ErrorPage string | StateErrorPage | SuccessPage | NotFoundPage

datatype os = Darwin | Win32 | OtherOS

text \<open>
  An address is kept as its base and its query parameters, before
  \<^verbatim>\<open>URLSearchParams.toString()\<close> encodes them. It appears in console lines and in the
  arguments of the program that opens the browser.
\<close>

type_synonym url = "string \<times> (string \<times> string) list"

datatype console_line = Message string | ShowUrl url | ListeningOn nat

datatype exec_arg = Word string | UrlArg url

text \<open>
  The world the code runs in. \<open>now\<close> is \<^verbatim>\<open>Date.now()\<close>. \<open>token_endpoint\<close> lists what
  the successive requests to the token endpoint will meet and \<open>posted\<close> the form bodies
  sent so far. \<open>inbound\<close> lists the requests that reach the callback port, each with its
  arrival time in milliseconds after the listener started, in arrival order. \<open>bound\<close>
  holds the local ports in use. \<open>entropy\<close> and \<open>drawn\<close> give the results of
  \<^verbatim>\<open>randomBytes(16).toString("hex")\<close>. \<open>served\<close>, \<open>console\<close> and \<open>launched\<close> record
  the pages sent, the lines written by \<^verbatim>\<open>console.error\<close> and the programs started by
  \<^verbatim>\<open>execFile\<close>.
\<close>

record world =
  now :: int
  fs :: directory
  can_mkdir :: bool
  token_endpoint :: "fetch_outcome list"
  posted :: "(string \<times> string) list list"
  inbound :: "(nat \<times> request) list"
  bound :: "nat set"
  entropy :: "nat \<Rightarrow> string"
  drawn :: nat
  platform :: os
  served :: "(nat \<times> page) list"
  console :: "console_line list"
  launched :: "(string \<times> exec_arg list) list"

subsection \<open>Awaiting\<close>

fun await :: "'a promise \<Rightarrow> ('a \<Rightarrow> 'b promise) \<Rightarrow> 'b promise" where
  "await (Resolved x) k = k x"
| "await (Rejected e) k = Rejected e"
| "await Pending k = Pending"

fun await_in :: "'a promise \<times> world \<Rightarrow> ('a \<Rightarrow> world \<Rightarrow> 'b promise \<times> world) \<Rightarrow> 'b promise \<times> world" where
  "await_in (Resolved x, w) k = k x w"
| "await_in (Rejected e, w) k = (Rejected e, w)"
| "await_in (Pending, w) k = (Pending, w)"

subsection \<open>node:fs/promises\<close>

fun readFile :: "directory \<Rightarrow> string promise" where
  "readFile NoDir = Rejected (FsError ENOENT)"
| "readFile (Dir dm None) =
     (if owner_can_search dm then Rejected (FsError ENOENT) else Rejected (FsError EACCES))"
| "readFile (Dir dm (Some f)) =
     (if owner_can_search dm \<and> owner_can_read (mode f) then Resolved (content f)
      else Rejected (FsError EACCES))"

text \<open>
  \<^verbatim>\<open>mkdir(dir, { recursive: true, mode })\<close>: an existing directory is left as it is,
  mode included; a missing one is created with the mode, when the enclosing directory
  allows it.
\<close>

definition mkdir :: "nat \<Rightarrow> world \<Rightarrow> unit promise \<times> world" where
  "mkdir m w =
     (case fs w of
        NoDir \<Rightarrow> (if can_mkdir w then (Resolved (), w\<lparr>fs := Dir m None\<rparr>)
                  else (Rejected (FsError EACCES), w))
      | Dir dm f \<Rightarrow> (Resolved (), w))"

text \<open>
  \<^verbatim>\<open>writeFile(path, data, { mode })\<close>: the mode is used only when the file is
  created; an existing file keeps its mode and gets the new content.
\<close>

definition writeFile :: "string \<Rightarrow> nat \<Rightarrow> world \<Rightarrow> unit promise \<times> world" where
  "writeFile data m w =
     (case fs w of
        NoDir \<Rightarrow> (Rejected (FsError ENOENT), w)
      | Dir dm None \<Rightarrow>
          (if owner_can_search dm \<and> owner_can_write dm
           then (Resolved (), w\<lparr>fs := Dir dm (Some \<lparr>content = data, mode = m\<rparr>)\<rparr>)
           else (Rejected (FsError EACCES), w))
      | Dir dm (Some f) \<Rightarrow>
          (if owner_can_search dm \<and> owner_can_write (mode f)
           then (Resolved (), w\<lparr>fs := Dir dm (Some (f\<lparr>content := data\<rparr>))\<rparr>)
           else (Rejected (FsError EACCES), w)))"

definition chmod :: "nat \<Rightarrow> world \<Rightarrow> unit promise \<times> world" where
  "chmod m w =
     (case fs w of
        NoDir \<Rightarrow> (Rejected (FsError ENOENT), w)
      | Dir dm None \<Rightarrow>
          (if owner_can_search dm then (Rejected (FsError ENOENT), w)
           else (Rejected (FsError EACCES), w))
      | Dir dm (Some f) \<Rightarrow>
          (if owner_can_search dm then (Resolved (), w\<lparr>fs := Dir dm (Some (f\<lparr>mode := m\<rparr>))\<rparr>)
           else (Rejected (FsError EACCES), w)))"

section \<open>TokenStore (token-store.ts)\<close>

text \<open>
  \<^verbatim>\<open>JSON.parse\<close> and \<^verbatim>\<open>JSON.stringify\<close> belong to the runtime, not to this
  repository; they are parameters. \<open>JSON_parse\<close> returns \<open>None\<close> where
  \<^verbatim>\<open>JSON.parse\<close> throws a \<^verbatim>\<open>SyntaxError\<close>.
\<close>

text \<open>
  JSON text has no notation for a number that is not finite: \<^verbatim>\<open>JSON.stringify\<close>
  writes \<^verbatim>\<open>null\<close> in its place. \<open>as_written v\<close> is the value that the text written
  for \<open>v\<close> denotes.
\<close>

fun isFinite :: "number \<Rightarrow> bool" where
  "isFinite (Finite a) = True"
| "isFinite _ = False"

fun as_written :: "json \<Rightarrow> json"
  and as_written_elements :: "json list \<Rightarrow> json list"
  and as_written_members :: "(string \<times> json) list \<Rightarrow> (string \<times> json) list" where
  "as_written JNull = JNull"
| "as_written (JBool b) = JBool b"
| "as_written (JNum n) = (if isFinite n then JNum n else JNull)"
| "as_written (JStr s) = JStr s"
| "as_written (JArr vs) = JArr (as_written_elements vs)"
| "as_written (JObj kvs) = JObj (as_written_members kvs)"
| "as_written_elements [] = []"
| "as_written_elements (v # vs) = as_written v # as_written_elements vs"
| "as_written_members [] = []"
| "as_written_members ((key, v) # kvs) = (key, as_written v) # as_written_members kvs"

definition parse_or_throw :: "(string \<Rightarrow> json option) \<Rightarrow> string \<Rightarrow> json promise" where
  "parse_or_throw JSON_parse data =
     (case JSON_parse data of None \<Rightarrow> Rejected SyntaxError | Some v \<Rightarrow> Resolved v)"

text \<open>\<^verbatim>\<open>try { ... } catch { return null; }\<close>\<close>

fun catch_null :: "'a option promise \<Rightarrow> 'a option promise" where
  "catch_null (Rejected e) = Resolved None"
| "catch_null p = p"

text \<open>The validating variant of \<^verbatim>\<open>load\<close>.\<close>

definition load :: "(string \<Rightarrow> json option) \<Rightarrow> world \<Rightarrow> TokenData option promise" where
  "load JSON_parse w =
     catch_null
       (await (readFile (fs w)) (\<lambda>data.
        await (parse_or_throw JSON_parse data) (\<lambda>parsed.
          if \<not> isValidTokenData parsed then Resolved None
          else Resolved (Some (as_TokenData parsed)))))"

text \<open>
  The non-validating variant: \<^verbatim>\<open>return JSON.parse(data) as TokenData\<close>. The cast
  checks nothing, so the result is whatever value the text denotes; the JSON text
  \<^verbatim>\<open>null\<close> denotes \<^verbatim>\<open>null\<close>, which is the absent result.
\<close>

definition load_nonvalidating :: "(string \<Rightarrow> json option) \<Rightarrow> world \<Rightarrow> json option promise" where
  "load_nonvalidating JSON_parse w =
     catch_null
       (await (readFile (fs w)) (\<lambda>data.
        await (parse_or_throw JSON_parse data) (\<lambda>parsed.
          if parsed = JNull then Resolved None else Resolved (Some parsed))))"

text \<open>The variant of \<^verbatim>\<open>save\<close> that ends with \<^verbatim>\<open>chmod\<close>.\<close>

definition save :: "(json \<Rightarrow> string) \<Rightarrow> TokenData \<Rightarrow> world \<Rightarrow> unit promise \<times> world" where
  "save JSON_stringify tokens w =
     await_in (mkdir mode_0o700 w) (\<lambda>_ w.
     await_in (writeFile (JSON_stringify (json_of_TokenData tokens)) mode_0o600 w) (\<lambda>_ w.
     chmod mode_0o600 w))"

text \<open>The variant that sets the mode only through \<^verbatim>\<open>writeFile\<close>.\<close>

definition save_creation_only :: "(json \<Rightarrow> string) \<Rightarrow> TokenData \<Rightarrow> world \<Rightarrow> unit promise \<times> world" where
  "save_creation_only JSON_stringify tokens w =
     await_in (mkdir mode_0o700 w) (\<lambda>_ w.
     writeFile (JSON_stringify (json_of_TokenData tokens)) mode_0o600 w)"

text \<open>\<^verbatim>\<open>return tokens.expires_at - EXPIRY_BUFFER_MS <= Date.now();\<close>\<close>

definition isExpired :: "TokenData \<Rightarrow> world \<Rightarrow> bool" where
  "isExpired tokens w =
     number_le (number_sub (expires_at tokens) (Finite EXPIRY_BUFFER_MS)) (Finite (now w))"

section \<open>The callback server (callback-server.ts)\<close>

text \<open>\<^verbatim>\<open>url.searchParams.get(name)\<close>: the first value of the name, or \<^verbatim>\<open>null\<close>.\<close>

definition searchParams_get :: "request \<Rightarrow> string \<Rightarrow> string option" where
  "searchParams_get req name = map_of (searchParams req) name"

text \<open>\<^verbatim>\<open>if (v)\<close> on a \<^verbatim>\<open>string | null\<close>: \<^verbatim>\<open>null\<close> and the empty string are falsy.\<close>

fun truthy :: "string option \<Rightarrow> bool" where
  "truthy None = False"
| "truthy (Some s) = (s \<noteq> [])"

definition console_error :: "console_line \<Rightarrow> world \<Rightarrow> world" where
  "console_error line w = w\<lparr>console := console w @ [line]\<rparr>"

definition respond :: "nat \<Rightarrow> page \<Rightarrow> world \<Rightarrow> world" where
  "respond status body w = w\<lparr>served := served w @ [(status, body)]\<rparr>"

text \<open>\<^verbatim>\<open>server.close()\<close> releases the port of the server.\<close>

definition server_close :: "nat \<Rightarrow> world \<Rightarrow> world" where
  "server_close port w = w\<lparr>bound := bound w - {port}\<rparr>"

subsection \<open>The variant without a state parameter\<close>

text \<open>
  One run of the request handler. The result says how the handler settles the promise,
  if it does: \<^verbatim>\<open>resolve({ code, server })\<close> (the server is named by its port) or
  \<^verbatim>\<open>reject(...)\<close>.
\<close>

definition handler_nostate :: "nat \<Rightarrow> request \<Rightarrow> world \<Rightarrow> (string \<times> nat) promise option \<times> world" where
  "handler_nostate port req w =
     (let code = searchParams_get req ''code'';
          error = searchParams_get req ''error''
      in if pathname req = ''/callback'' then
           (if truthy error
            then (Some (Rejected (OAuthError (the error))), respond 400 (ErrorPage (the error)) w)
            else if truthy code
            then (Some (Resolved (the code, port)), respond 200 SuccessPage w)
            else (None, respond 404 NotFoundPage w))
         else (None, respond 404 NotFoundPage w))"

text \<open>
  The server handles the inbound requests in order until one settles the promise. The
  clock stands at the arrival time of the request being handled. This variant sets no
  timer: when no request settles the promise, it stays pending and the server stays up.
\<close>

fun serve_nostate :: "int \<Rightarrow> nat \<Rightarrow> (nat \<times> request) list \<Rightarrow> world \<Rightarrow> (string \<times> nat) promise \<times> world" where
  "serve_nostate t0 port [] w = (Pending, w)"
| "serve_nostate t0 port ((t, req) # rest) w =
     (case handler_nostate port req (w\<lparr>now := t0 + int t\<rparr>) of
        (Some outcome, w') \<Rightarrow> (outcome, w')
      | (None, w') \<Rightarrow> serve_nostate t0 port rest w')"

text \<open>
  \<^verbatim>\<open>server.listen(port, ...)\<close> fails with \<^verbatim>\<open>EADDRINUSE\<close> when the port is taken; the
  \<^verbatim>\<open>"error"\<close> listener then rejects the promise.
\<close>

definition waitForCallback_nostate :: "nat \<Rightarrow> world \<Rightarrow> (string \<times> nat) promise \<times> world" where
  "waitForCallback_nostate port w =
     (if port \<in> bound w then (Rejected (ListenError EADDRINUSE), w)
      else serve_nostate (now w) port (inbound w)
             (console_error (ListeningOn port) (w\<lparr>bound := insert port (bound w), inbound := []\<rparr>)))"

subsection \<open>The variant that validates the state parameter\<close>

definition CALLBACK_TIMEOUT_MS :: nat where
  "CALLBACK_TIMEOUT_MS = 120000"

definition replace_all :: "char \<Rightarrow> string \<Rightarrow> string \<Rightarrow> string" where
  "replace_all c r str = concat (map (\<lambda>x. if x = c then r else [x]) str)"

definition escapeHtml :: "string \<Rightarrow> string" where
  "escapeHtml str =
     replace_all (CHR 0x22) ''&quot;''
       (replace_all CHR ''>'' ''&gt;''
         (replace_all CHR ''<'' ''&lt;''
           (replace_all CHR ''&'' ''&amp;'' str)))"

text \<open>
  \<^verbatim>\<open>state !== expectedState\<close>. The query parameter is a string or \<^verbatim>\<open>null\<close>
  (\<open>None\<close> on the left). The expected state is a string, or \<^verbatim>\<open>undefined\<close> when the
  caller passes no second argument (\<open>None\<close> on the right); \<^verbatim>\<open>null\<close> and
  \<^verbatim>\<open>undefined\<close> differ from each other and from every string.
\<close>

fun strict_neq :: "string option \<Rightarrow> string option \<Rightarrow> bool" where
  "strict_neq (Some s) (Some e) = (s \<noteq> e)"
| "strict_neq _ _ = True"

definition handler_state :: "nat \<Rightarrow> string option \<Rightarrow> request \<Rightarrow> world \<Rightarrow> (string \<times> nat) promise option \<times> world" where
  "handler_state port expectedState req w =
     (let code = searchParams_get req ''code'';
          error = searchParams_get req ''error'';
          state = searchParams_get req ''state''
      in if pathname req = ''/callback'' then
           (if truthy error
            then (Some (Rejected AuthorizationDenied),
                  server_close port (respond 400 (ErrorPage (escapeHtml (the error))) w))
            else if strict_neq state expectedState
            then (Some (Rejected StateMismatch),
                  server_close port (respond 400 StateErrorPage w))
            else if truthy code
            then (Some (Resolved (the code, port)), respond 200 SuccessPage w)
            else (None, respond 404 NotFoundPage w))
         else (None, respond 404 NotFoundPage w))"

text \<open>The requests on which the handler settles the promise: the others get the 404 page.\<close>

definition settles :: "string option \<Rightarrow> request \<Rightarrow> bool" where
  "settles expectedState req =
     (pathname req = ''/callback'' \<and>
      (truthy (searchParams_get req ''error'') \<or>
       strict_neq (searchParams_get req ''state'') expectedState \<or>
       truthy (searchParams_get req ''code'')))"

text \<open>
  The timer set with \<^verbatim>\<open>setTimeout(..., CALLBACK_TIMEOUT_MS)\<close> fires when the promise
  is still pending at that time: before any request that arrives later, and when the
  requests run out. It closes the server and rejects.
\<close>

definition timer_fires :: "int \<Rightarrow> nat \<Rightarrow> world \<Rightarrow> (string \<times> nat) promise \<times> world" where
  "timer_fires t0 port w =
     (Rejected CallbackTimeout, server_close port (w\<lparr>now := t0 + int CALLBACK_TIMEOUT_MS\<rparr>))"

fun serve_state :: "int \<Rightarrow> nat \<Rightarrow> string option \<Rightarrow> (nat \<times> request) list \<Rightarrow> world \<Rightarrow> (string \<times> nat) promise \<times> world" where
  "serve_state t0 port expectedState [] w = timer_fires t0 port w"
| "serve_state t0 port expectedState ((t, req) # rest) w =
     (if CALLBACK_TIMEOUT_MS \<le> t then timer_fires t0 port w
      else case handler_state port expectedState req (w\<lparr>now := t0 + int t\<rparr>) of
             (Some outcome, w') \<Rightarrow> (outcome, w')
           | (None, w') \<Rightarrow> serve_state t0 port expectedState rest w')"

definition waitForCallback_state :: "nat \<Rightarrow> string option \<Rightarrow> world \<Rightarrow> (string \<times> nat) promise \<times> world" where
  "waitForCallback_state port expectedState w =
     (if port \<in> bound w then (Rejected (ListenError EADDRINUSE), w)
      else serve_state (now w) port expectedState (inbound w)
             (console_error (ListeningOn port) (w\<lparr>bound := insert port (bound w), inbound := []\<rparr>)))"

section \<open>OAuthClient (oauth-client.ts)\<close>

definition MF_AUTH_BASE :: string where
  "MF_AUTH_BASE = ''https://api.biz.moneyforward.com''"

definition MF_TOKEN_URL :: string where
  "MF_TOKEN_URL = MF_AUTH_BASE @ ''/token''"

fun join :: "string \<Rightarrow> string list \<Rightarrow> string" where
  "join sep [] = []"
| "join sep [x] = x"
| "join sep (x # y # ys) = x @ sep @ join sep (y # ys)"

definition ALL_SCOPES :: string where
  "ALL_SCOPES =
     join '' '' [''office_setting:write'', ''user_setting:write'', ''transaction:write'',
                 ''report:write'', ''mfc/invoice/data.read'', ''mfc/invoice/data.write'']"

record OAuthConfig =
  clientId :: string
  clientSecret :: string
  redirectUri :: string

definition buildAuthorizationUrl :: "OAuthConfig \<Rightarrow> string \<Rightarrow> url" where
  "buildAuthorizationUrl config state =
     (MF_AUTH_BASE @ ''/authorize'',
      [(''client_id'', clientId config),
       (''redirect_uri'', redirectUri config),
       (''response_type'', ''code''),
       (''scope'', ALL_SCOPES),
       (''state'', state)])"

definition buildTokenRequestBody :: "OAuthConfig \<Rightarrow> string \<Rightarrow> (string \<times> string) list" where
  "buildTokenRequestBody config code =
     [(''grant_type'', ''authorization_code''),
      (''code'', code),
      (''client_id'', clientId config),
      (''client_secret'', clientSecret config),
      (''redirect_uri'', redirectUri config)]"

definition buildRefreshRequestBody :: "OAuthConfig \<Rightarrow> string \<Rightarrow> (string \<times> string) list" where
  "buildRefreshRequestBody config token =
     [(''grant_type'', ''refresh_token''),
      (''refresh_token'', token),
      (''client_id'', clientId config),
      (''client_secret'', clientSecret config)]"

text \<open>
  \<^verbatim>\<open>fetch(MF_TOKEN_URL, { method: "POST", ..., body })\<close>: the body is sent and the next
  outcome of the endpoint comes back; with no outcome left the request fails.
\<close>

definition fetch :: "(string \<times> string) list \<Rightarrow> world \<Rightarrow> fetch_outcome \<times> world" where
  "fetch body w =
     (case token_endpoint w of
        [] \<Rightarrow> (NetworkFailure, w\<lparr>posted := posted w @ [body]\<rparr>)
      | r # rs \<Rightarrow> (r, w\<lparr>posted := posted w @ [body], token_endpoint := rs\<rparr>))"

text \<open>\<^verbatim>\<open>res.ok\<close>: the status is in the range 200 to 299.\<close>

definition ok :: "nat \<Rightarrow> bool" where
  "ok status = (200 \<le> status \<and> status \<le> 299)"

definition tokens_from :: "token_response \<Rightarrow> world \<Rightarrow> TokenData" where
  "tokens_from json w =
     \<lparr>access_token = json_access_token json,
      refresh_token = json_refresh_token json,
      expires_at = number_add (Finite (now w)) (number_mul (json_expires_in json) (Finite 1000)),
      scope = json_scope json\<rparr>"

definition exchangeCode :: "OAuthConfig \<Rightarrow> string \<Rightarrow> world \<Rightarrow> TokenData promise \<times> world" where
  "exchangeCode config code w =
     (case fetch (buildTokenRequestBody config code) w of
        (NetworkFailure, w') \<Rightarrow> (Rejected FetchFailed, w')
      | (Response status text js, w') \<Rightarrow>
          (if \<not> ok status then (Rejected (TokenExchangeFailed status text), w')
           else case js of
                  None \<Rightarrow> (Rejected SyntaxError, w')
                | Some json \<Rightarrow> (Resolved (tokens_from json w'), w')))"

definition refreshToken :: "OAuthConfig \<Rightarrow> string \<Rightarrow> world \<Rightarrow> TokenData promise \<times> world" where
  "refreshToken config token w =
     (case fetch (buildRefreshRequestBody config token) w of
        (NetworkFailure, w') \<Rightarrow> (Rejected FetchFailed, w')
      | (Response status text js, w') \<Rightarrow>
          (if \<not> ok status then (Rejected (TokenRefreshFailed status text), w')
           else case js of
                  None \<Rightarrow> (Rejected SyntaxError, w')
                | Some json \<Rightarrow> (Resolved (tokens_from json w'), w')))"

text \<open>\<^verbatim>\<open>randomBytes(16).toString("hex")\<close>\<close>

definition randomBytes_hex :: "world \<Rightarrow> string \<times> world" where
  "randomBytes_hex w = (entropy w (drawn w), w\<lparr>drawn := Suc (drawn w)\<rparr>)"

definition open_command :: "os \<Rightarrow> url \<Rightarrow> string \<times> exec_arg list" where
  "open_command p authUrl =
     (if p = Darwin then ''open'' else if p = Win32 then ''cmd'' else ''xdg-open'',
      if p = Win32 then [Word ''/c'', Word ''start'', UrlArg authUrl] else [UrlArg authUrl])"

text \<open>
  \<^verbatim>\<open>authorize\<close> imports \<^verbatim>\<open>waitForCallback\<close> from \<^verbatim>\<open>./callback-server.js\<close>, of which
  the sources hold two variants; the listener is therefore a parameter. Whichever it
  is, \<^verbatim>\<open>authorize\<close> calls it with the port alone:
  \<^verbatim>\<open>const { code, server } = await waitForCallback(port); server.close();\<close>.
  The callback of \<^verbatim>\<open>execFile\<close> only writes a console line when the browser does not
  start and is left out.
\<close>

definition authorize :: "(nat \<Rightarrow> world \<Rightarrow> (string \<times> nat) promise \<times> world) \<Rightarrow> OAuthConfig \<Rightarrow> nat \<Rightarrow> world \<Rightarrow> TokenData promise \<times> world" where
  "authorize waitForCallback config port w =
     (case randomBytes_hex w of (state, w) \<Rightarrow>
        let authUrl = buildAuthorizationUrl config state;
            w = console_error
                  (Message (CHR 0x0A # ''Please open this URL in your browser to authenticate:'')) w;
            w = console_error (ShowUrl authUrl) w;
            w = w\<lparr>launched := launched w @ [open_command (platform w) authUrl]\<rparr>
        in await_in (waitForCallback port w) (\<lambda>(code, server) w.
             exchangeCode config code (server_close server w)))"

text \<open>The two ways the import can resolve, each called as \<^verbatim>\<open>waitForCallback(port)\<close>.\<close>

definition authorize_nostate :: "OAuthConfig \<Rightarrow> nat \<Rightarrow> world \<Rightarrow> TokenData promise \<times> world" where
  "authorize_nostate = authorize waitForCallback_nostate"

definition authorize_state :: "OAuthConfig \<Rightarrow> nat \<Rightarrow> world \<Rightarrow> TokenData promise \<times> world" where
  "authorize_state = authorize (\<lambda>port. waitForCallback_state port None)"

section \<open>AuthManager (auth-manager.ts)\<close>

text \<open>
  The manager holds a \<^verbatim>\<open>TokenStore\<close> and an \<^verbatim>\<open>OAuthClient\<close>. The store is the
  validating one; the runtime's JSON functions, the listener and the client's
  configuration are what the two objects are built from.
\<close>

record deps =
  JSON_parse :: "string \<Rightarrow> json option"
  JSON_stringify :: "json \<Rightarrow> string"
  waitForCallback :: "nat \<Rightarrow> world \<Rightarrow> (string \<times> nat) promise \<times> world"
  config :: OAuthConfig

definition DEFAULT_PORT :: nat where
  "DEFAULT_PORT = 3456"

definition doInteractiveAuth :: "deps \<Rightarrow> world \<Rightarrow> TokenData promise \<times> world" where
  "doInteractiveAuth d w =
     await_in (authorize (waitForCallback d) (config d) DEFAULT_PORT w) (\<lambda>tokens w.
     await_in (save (JSON_stringify d) tokens w) (\<lambda>_ w.
     (Resolved tokens, w)))"

text \<open>\<^verbatim>\<open>try { ... } catch { ... }\<close> around awaited work: a rejection runs the handler.\<close>

fun try_catch :: "'a promise \<times> world \<Rightarrow> (world \<Rightarrow> 'a promise \<times> world) \<Rightarrow> 'a promise \<times> world" where
  "try_catch (Rejected e, w) h = h w"
| "try_catch r h = r"

definition getValidToken :: "deps \<Rightarrow> world \<Rightarrow> TokenData promise \<times> world" where
  "getValidToken d w =
     await_in (load (JSON_parse d) w, w) (\<lambda>stored w.
       case stored of
         None \<Rightarrow> doInteractiveAuth d w
       | Some stored \<Rightarrow>
           if \<not> isExpired stored w then (Resolved stored, w)
           else try_catch
                  (await_in (refreshToken (config d) (refresh_token stored) w) (\<lambda>refreshed w.
                   await_in (save (JSON_stringify d) refreshed w) (\<lambda>_ w.
                   (Resolved refreshed, w))))
                  (\<lambda>w. doInteractiveAuth d
                         (console_error
                            (Message ''Token refresh failed. Starting interactive auth...'') w)))"

record AuthStatus =
  authenticated :: bool
  expiresAt :: "number option"
  status_scope :: "string option"

definition getAuthStatus :: "deps \<Rightarrow> world \<Rightarrow> AuthStatus promise" where
  "getAuthStatus d w =
     await (load (JSON_parse d) w) (\<lambda>stored.
       case stored of
         None \<Rightarrow> Resolved \<lparr>authenticated = False, expiresAt = None, status_scope = None\<rparr>
       | Some stored \<Rightarrow>
           Resolved \<lparr>authenticated = \<not> isExpired stored w,
                     expiresAt = Some (expires_at stored),
                     status_scope = Some (scope stored)\<rparr>)"

section \<open>A reference JSON runtime\<close>

text \<open>
  An implementation of the two runtime functions, to run the model on concrete
  documents and to show that a runtime of the assumed kind exists.
  \<open>reference_stringify\<close> prints as \<^verbatim>\<open>JSON.stringify(v, null, 2)\<close> does (two spaces of
  indentation per level); \<open>reference_parse\<close> reads JSON text, with fuel bounded by the
  length of the text. Strings are sequences of bytes. A finite number is printed as an
  integer literal and integer literals are read; a number that is not finite is
  printed as \<^verbatim>\<open>null\<close>, as \<^verbatim>\<open>JSON.stringify\<close> does.
\<close>

definition digits :: string where
  "digits = ''0123456789''"

function show_digits :: "int \<Rightarrow> string" where
  "show_digits n =
     (if n < 10 then [digits ! nat n]
      else show_digits (n div 10) @ [digits ! nat (n mod 10)])"
  by pat_completeness auto
termination
  by (relation "measure nat") auto

declare show_digits.simps [simp del]

definition show_int :: "int \<Rightarrow> string" where
  "show_int i = (if i < 0 then CHR ''-'' # show_digits (- i) else show_digits i)"

definition hex_digits :: string where
  "hex_digits = ''0123456789abcdef''"

definition escape_char :: "char \<Rightarrow> string" where
  "escape_char c =
     (if c = CHR 0x22 then [CHR 0x5C, CHR 0x22]
      else if c = CHR 0x5C then [CHR 0x5C, CHR 0x5C]
      else if c = CHR 0x08 then [CHR 0x5C, CHR ''b'']
      else if c = CHR 0x0C then [CHR 0x5C, CHR ''f'']
      else if c = CHR 0x0A then [CHR 0x5C, CHR ''n'']
      else if c = CHR 0x0D then [CHR 0x5C, CHR ''r'']
      else if c = CHR 0x09 then [CHR 0x5C, CHR ''t'']
      else if (of_char c :: nat) < 32
      then [CHR 0x5C, CHR ''u'', CHR ''0'', CHR ''0'',
            hex_digits ! (of_char c div 16), hex_digits ! (of_char c mod 16)]
      else [c])"

definition quote :: "string \<Rightarrow> string" where
  "quote s = CHR 0x22 # concat (map escape_char s) @ [CHR 0x22]"

definition indent :: "nat \<Rightarrow> string" where
  "indent k = replicate (2 * k) CHR '' ''"

fun stringify_at :: "nat \<Rightarrow> json \<Rightarrow> string"
  and stringify_elements :: "nat \<Rightarrow> json list \<Rightarrow> string list"
  and stringify_members :: "nat \<Rightarrow> (string \<times> json) list \<Rightarrow> string list" where
  "stringify_at k JNull = ''null''"
| "stringify_at k (JBool b) = (if b then ''true'' else ''false'')"
| "stringify_at k (JNum n) = (case n of Finite i \<Rightarrow> show_int i | _ \<Rightarrow> ''null'')"
| "stringify_at k (JStr s) = quote s"
| "stringify_at k (JArr vs) =
     (if vs = [] then ''[]''
      else ''['' @ [CHR 0x0A] @ join ('','' @ [CHR 0x0A]) (stringify_elements (Suc k) vs) @
           [CHR 0x0A] @ indent k @ '']'')"
| "stringify_at k (JObj kvs) =
     (if kvs = [] then ''{}''
      else ''{'' @ [CHR 0x0A] @ join ('','' @ [CHR 0x0A]) (stringify_members (Suc k) kvs) @
           [CHR 0x0A] @ indent k @ ''}'')"
| "stringify_elements k [] = []"
| "stringify_elements k (v # vs) = (indent k @ stringify_at k v) # stringify_elements k vs"
| "stringify_members k [] = []"
| "stringify_members k ((key, v) # kvs) =
     (indent k @ quote key @ '': '' @ stringify_at k v) # stringify_members k kvs"

definition reference_stringify :: "json \<Rightarrow> string" where
  "reference_stringify v = stringify_at 0 v"

definition is_ws :: "char \<Rightarrow> bool" where
  "is_ws c = (c = CHR '' '' \<or> c = CHR 0x0A \<or> c = CHR 0x0D \<or> c = CHR 0x09)"

fun skip_ws :: "string \<Rightarrow> string" where
  "skip_ws [] = []"
| "skip_ws (c # cs) = (if is_ws c then skip_ws cs else c # cs)"

definition digit_of :: "char \<Rightarrow> int option" where
  "digit_of c = map_of (zip digits [0, 1, 2, 3, 4, 5, 6, 7, 8, 9]) c"

fun read_digits :: "int \<Rightarrow> string \<Rightarrow> int \<times> string" where
  "read_digits acc [] = (acc, [])"
| "read_digits acc (c # cs) =
     (case digit_of c of Some d \<Rightarrow> read_digits (10 * acc + d) cs | None \<Rightarrow> (acc, c # cs))"

text \<open>
  An integer literal: at least one digit, no leading zero before another digit; a
  fraction or an exponent is refused.
\<close>

definition read_nat :: "string \<Rightarrow> (int \<times> string) option" where
  "read_nat s =
     (case read_digits 0 s of (n, rest) \<Rightarrow>
        if rest = s then None
        else if hd s = CHR ''0'' \<and> tl s \<noteq> rest then None
        else if rest \<noteq> [] \<and> hd rest \<in> set ''.eE'' then None
        else Some (n, rest))"

definition read_int :: "string \<Rightarrow> (int \<times> string) option" where
  "read_int s =
     (case s of
        [] \<Rightarrow> None
      | c # cs \<Rightarrow>
          if c = CHR ''-'' then map_option (\<lambda>(n, rest). (- n, rest)) (read_nat cs)
          else read_nat s)"

definition unescapes :: "(char \<times> char) list" where
  "unescapes =
     [(CHR 0x22, CHR 0x22), (CHR 0x5C, CHR 0x5C), (CHR ''/'', CHR ''/''), (CHR ''b'', CHR 0x08),
      (CHR ''f'', CHR 0x0C), (CHR ''n'', CHR 0x0A), (CHR ''r'', CHR 0x0D), (CHR ''t'', CHR 0x09)]"

definition hex_of :: "char \<Rightarrow> nat option" where
  "hex_of c = map_of (zip (hex_digits @ ''ABCDEF'')
                [0, 1, 2, 3, 4, 5, 6, 7, 8, 9, 10, 11, 12, 13, 14, 15, 10, 11, 12, 13, 14, 15]) c"

fun read_string :: "string \<Rightarrow> (string \<times> string) option" where
  "read_string [] = None"
| "read_string (c # cs) =
     (if c = CHR 0x22 then Some ([], cs)
      else if c = CHR 0x5C then
        (case cs of
           [] \<Rightarrow> None
         | e # cs' \<Rightarrow>
             if e = CHR ''u'' then
               (case map hex_of (take 4 cs') of
                  [Some a, Some b, Some c', Some d] \<Rightarrow>
                    if a = 0 \<and> b = 0 \<and> c' < 8
                    then map_option (\<lambda>(s, rest). (char_of (16 * c' + d) # s, rest))
                           (read_string (drop 4 cs'))
                    else None
                | _ \<Rightarrow> None)
             else (case map_of unescapes e of
                     None \<Rightarrow> None
                   | Some x \<Rightarrow> map_option (\<lambda>(s, rest). (x # s, rest)) (read_string cs')))
      else if (of_char c :: nat) < 32 then None
      else map_option (\<lambda>(s, rest). (c # s, rest)) (read_string cs))"

fun parse_value :: "nat \<Rightarrow> string \<Rightarrow> (json \<times> string) option"
  and parse_elements :: "nat \<Rightarrow> string \<Rightarrow> (json list \<times> string) option"
  and parse_members :: "nat \<Rightarrow> string \<Rightarrow> ((string \<times> json) list \<times> string) option" where
  "parse_value 0 s = None"
| "parse_value (Suc n) s =
     (case skip_ws s of
        [] \<Rightarrow> None
      | c # cs \<Rightarrow>
          if c = CHR ''{'' then
            (case skip_ws cs of
               [] \<Rightarrow> None
             | c' # cs' \<Rightarrow>
                 if c' = CHR ''}'' then Some (JObj [], cs')
                 else map_option (\<lambda>(kvs, rest). (JObj kvs, rest)) (parse_members n (c' # cs')))
          else if c = CHR ''['' then
            (case skip_ws cs of
               [] \<Rightarrow> None
             | c' # cs' \<Rightarrow>
                 if c' = CHR '']'' then Some (JArr [], cs')
                 else map_option (\<lambda>(vs, rest). (JArr vs, rest)) (parse_elements n (c' # cs')))
          else if c = CHR 0x22 then map_option (\<lambda>(str, rest). (JStr str, rest)) (read_string cs)
          else if take 4 (c # cs) = ''null'' then Some (JNull, drop 4 (c # cs))
          else if take 4 (c # cs) = ''true'' then Some (JBool True, drop 4 (c # cs))
          else if take 5 (c # cs) = ''false'' then Some (JBool False, drop 5 (c # cs))
          else map_option (\<lambda>(i, rest). (JNum (Finite i), rest)) (read_int (c # cs)))"
| "parse_elements 0 s = None"
| "parse_elements (Suc n) s =
     (case parse_value n s of
        None \<Rightarrow> None
      | Some (v, rest) \<Rightarrow>
          (case skip_ws rest of
             [] \<Rightarrow> None
           | c # cs \<Rightarrow>
               if c = CHR '']'' then Some ([v], cs)
               else if c = CHR '','' then
                 map_option (\<lambda>(vs, rest'). (v # vs, rest')) (parse_elements n cs)
               else None))"
| "parse_members 0 s = None"
| "parse_members (Suc n) s =
     (case skip_ws s of
        [] \<Rightarrow> None
      | q # cs \<Rightarrow>
          if q \<noteq> CHR 0x22 then None
          else (case read_string cs of
                  None \<Rightarrow> None
                | Some (key, rest) \<Rightarrow>
                    (case skip_ws rest of
                       [] \<Rightarrow> None
                     | colon # cs' \<Rightarrow>
                         if colon \<noteq> CHR '':'' then None
                         else (case parse_value n cs' of
                                 None \<Rightarrow> None
                               | Some (v, rest') \<Rightarrow>
                                   (case skip_ws rest' of
                                      [] \<Rightarrow> None
                                    | c # cs'' \<Rightarrow>
                                        if c = CHR ''}'' then Some ([(key, v)], cs'')
                                        else if c = CHR '','' then
                                          map_option (\<lambda>(kvs, r). ((key, v) # kvs, r))
                                            (parse_members n cs'')
                                        else None)))))"

definition reference_parse :: "string \<Rightarrow> json option" where
  "reference_parse s =
     (case parse_value (Suc (length s)) s of
        None \<Rightarrow> None
      | Some (v, rest) \<Rightarrow> if skip_ws rest = [] then Some v else None)"

text \<open>What may follow a number for it to be read back: nothing, or no digit, point or exponent.\<close>

definition ends_number :: "string \<Rightarrow> bool" where
  "ends_number rest = (rest = [] \<or> (digit_of (hd rest) = None \<and> hd rest \<notin> set ''.eE''))"

section \<open>Example data\<close>

definition example_config :: OAuthConfig where
  "example_config =
     \<lparr>clientId = ''test-client-id'',
      clientSecret = ''test-client-secret'',
      redirectUri = ''http://localhost:3456/callback''\<rparr>"

text \<open>The program as wired in the sources: \<^verbatim>\<open>waitForCallback(port)\<close> of the variant with one parameter.\<close>

definition example_deps :: deps where
  "example_deps =
     \<lparr>JSON_parse = reference_parse,
      JSON_stringify = reference_stringify,
      waitForCallback = waitForCallback_nostate,
      config = example_config\<rparr>"

text \<open>A quiet world: no token file, no traffic, nothing bound.\<close>

definition world0 :: world where
  "world0 =
     \<lparr>now = 1700000000000,
      fs = NoDir,
      can_mkdir = True,
      token_endpoint = [],
      posted = [],
      inbound = [],
      bound = {},
      entropy = (\<lambda>n. ''0123456789abcdef0123456789abcdef''),
      drawn = 0,
      platform = OtherOS,
      served = [],
      console = [],
      launched = []\<rparr>"

definition valid_tokens :: TokenData where
  "valid_tokens =
     \<lparr>access_token = ''valid-access'',
      refresh_token = ''valid-refresh'',
      expires_at = Finite 1700003600000,
      scope = ''test''\<rparr>"

text \<open>A token set whose \<^verbatim>\<open>expires_at\<close> is \<^verbatim>\<open>NaN\<close>.\<close>

definition nan_tokens :: TokenData where
  "nan_tokens =
     \<lparr>access_token = ''valid-access'',
      refresh_token = ''valid-refresh'',
      expires_at = NaN,
      scope = ''test''\<rparr>"

definition expired_tokens :: TokenData where
  "expired_tokens =
     \<lparr>access_token = ''expired-access'',
      refresh_token = ''expired-refresh'',
      expires_at = Finite 1699999999000,
      scope = ''test''\<rparr>"

text \<open>A world whose token file holds the given document, written by the reference runtime.\<close>

definition world_with_document :: "json \<Rightarrow> world" where
  "world_with_document v =
     world0\<lparr>fs := Dir mode_0o700
        (Some \<lparr>content = reference_stringify v, mode = mode_0o600\<rparr>)\<rparr>"

definition world_with :: "TokenData \<Rightarrow> world" where
  "world_with t = world_with_document (json_of_TokenData t)"

text \<open>A JSON object that is not token data: two properties are missing, one has the wrong type.\<close>

definition foreign_document :: json where
  "foreign_document = JObj [(''access_token'', JStr ''abc''), (''expires_at'', JStr ''tomorrow'')]"

text \<open>
  A world where the token file already exists and is readable by everyone
  (\<^verbatim>\<open>0o644\<close> is 420) in a directory open to everyone (\<^verbatim>\<open>0o755\<close> is 493).
\<close>

definition mode_0o644 :: nat where
  "mode_0o644 = 420"

definition mode_0o755 :: nat where
  "mode_0o755 = 493"

definition world_loose :: world where
  "world_loose = world0\<lparr>fs := Dir mode_0o755 (Some \<lparr>content = ''{}'', mode = mode_0o644\<rparr>)\<rparr>"

text \<open>Callbacks: the provider's redirect after consent, a redirect made up by someone else, a denial.\<close>

definition genuine_callback :: request where
  "genuine_callback =
     \<lparr>pathname = ''/callback'',
      searchParams = [(''code'', ''granted-code''), (''state'', ''0123456789abcdef0123456789abcdef'')]\<rparr>"

definition forged_callback :: request where
  "forged_callback =
     \<lparr>pathname = ''/callback'',
      searchParams = [(''code'', ''injected-code''), (''state'', ''attacker-state'')]\<rparr>"

definition denied_callback :: request where
  "denied_callback =
     \<lparr>pathname = ''/callback'', searchParams = [(''error'', ''access_denied'')]\<rparr>"

text \<open>
  Answers of the token endpoint: a grant, a success response whose body has no
  \<^verbatim>\<open>expires_in\<close>, and a refusal of the refresh token.
\<close>

definition token_reply :: fetch_outcome where
  "token_reply =
     Response 200 [] (Some \<lparr>json_access_token = ''valid-access'',
                              json_refresh_token = ''valid-refresh'',
                              json_expires_in = Finite 3600,
                              json_scope = ''test''\<rparr>)"

definition reply_without_expires_in :: fetch_outcome where
  "reply_without_expires_in =
     Response 200 [] (Some \<lparr>json_access_token = ''valid-access'',
                              json_refresh_token = ''valid-refresh'',
                              json_expires_in = NaN,
                              json_scope = ''test''\<rparr>)"

definition refresh_refused :: fetch_outcome where
  "refresh_refused = Response 400 ''invalid_grant'' None"

text \<open>
  A world with an expired token on disk, an endpoint that refuses the refresh and then
  grants the code, and a browser that calls back after one second.
\<close>

definition world_refresh_refused :: world where
  "world_refresh_refused =
     (world_with expired_tokens)
       \<lparr>token_endpoint := [refresh_refused, token_reply],
        inbound := [(1000, genuine_callback)]\<rparr>"

section \<open>Facts about the reference runtime\<close>

text \<open>A quoted string is read back, whatever its characters.\<close>

lemma hex_table: "list_all (\<lambda>n. hex_of (hex_digits ! n) = Some n) [0..<16]"
  by code_simp

lemma hex_of_hex_digit: "n < 16 \<Longrightarrow> hex_of (hex_digits ! n) = Some n"
  using hex_table by (simp add: list_all_iff)

lemma esc_special:
  "c \<in> {CHR 0x22, CHR 0x5C, CHR 0x08, CHR 0x0C, CHR 0x0A, CHR 0x0D, CHR 0x09} \<Longrightarrow>
   read_string (escape_char c @ rest) = map_option (\<lambda>(s, r). (c # s, r)) (read_string rest)"
  by (elim insertE emptyE) (simp_all add: escape_char_def unescapes_def)

lemma escape_char_plain:
  assumes "c \<noteq> CHR 0x22" "c \<noteq> CHR 0x5C" "\<not> (of_char c :: nat) < 32"
  shows "escape_char c = [c]"
proof -
  have "c \<noteq> CHR 0x08" "c \<noteq> CHR 0x0C" "c \<noteq> CHR 0x0A" "c \<noteq> CHR 0x0D" "c \<noteq> CHR 0x09"
    using assms(3) by auto
  with assms show ?thesis by (simp add: escape_char_def)
qed

lemma esc_plain:
  assumes "c \<noteq> CHR 0x22" "c \<noteq> CHR 0x5C" "\<not> (of_char c :: nat) < 32"
  shows "read_string (escape_char c @ rest) = map_option (\<lambda>(s, r). (c # s, r)) (read_string rest)"
  using assms by (simp add: escape_char_plain)

lemma escape_char_control:
  assumes "c \<notin> {CHR 0x22, CHR 0x5C, CHR 0x08, CHR 0x0C, CHR 0x0A, CHR 0x0D, CHR 0x09}"
    and "(of_char c :: nat) < 32"
  shows "escape_char c =
           [CHR 0x5C, CHR ''u'', CHR ''0'', CHR ''0'',
            hex_digits ! (of_char c div 16), hex_digits ! (of_char c mod 16)]"
  using assms by (simp add: escape_char_def)

lemma hex_of_zero: "hex_of CHR ''0'' = Some 0"
  by (simp add: hex_of_def hex_digits_def)

lemma esc_control:
  assumes "c \<notin> {CHR 0x22, CHR 0x5C, CHR 0x08, CHR 0x0C, CHR 0x0A, CHR 0x0D, CHR 0x09}"
    and "(of_char c :: nat) < 32"
  shows "read_string (escape_char c @ rest) = map_option (\<lambda>(s, r). (c # s, r)) (read_string rest)"
proof -
  let ?n = "of_char c :: nat"
  have d: "?n div 16 < 16" "?n mod 16 < 16" "?n div 16 < 8" using assms(2) by simp_all
  have recompose: "char_of (16 * (?n div 16) + ?n mod 16) = c" by simp
  show ?thesis
    unfolding escape_char_control [OF assms]
    by (simp add: hex_of_hex_digit [OF d(1)] hex_of_hex_digit [OF d(2)] hex_of_zero d(3) recompose
        del: mult_div_mod_eq)
qed

lemma read_string_escape:
  "read_string (escape_char c @ rest) = map_option (\<lambda>(s, r). (c # s, r)) (read_string rest)"
proof (cases "c \<in> {CHR 0x22, CHR 0x5C, CHR 0x08, CHR 0x0C, CHR 0x0A, CHR 0x0D, CHR 0x09}")
  case True
  then show ?thesis by (rule esc_special)
next
  case special: False
  show ?thesis
  proof (cases "(of_char c :: nat) < 32")
    case True
    with special show ?thesis by (rule esc_control)
  next
    case False
    with special show ?thesis by (intro esc_plain) simp_all
  qed
qed

lemma read_string_quoted:
  "read_string (concat (map escape_char s) @ CHR 0x22 # rest) = Some (s, rest)"
  by (induction s) (simp_all add: read_string_escape)

text \<open>A printed integer is read back, when no digit, point or exponent follows it.\<close>

lemma digit_table: "list_all (\<lambda>d. digit_of (digits ! nat d) = Some d) [0..9]"
  by code_simp

lemma digit_of_digit: "0 \<le> d \<Longrightarrow> d < 10 \<Longrightarrow> digit_of (digits ! nat d) = Some d"
  using digit_table by (simp add: list_all_iff)

lemma read_digits_show_digits:
  "0 \<le> n \<Longrightarrow>
     read_digits acc (show_digits n @ rest) =
       read_digits (acc * 10 ^ length (show_digits n) + n) rest"
proof (induction n arbitrary: acc rest rule: show_digits.induct)
  case (1 n)
  show ?case
  proof (cases "n < 10")
    case True
    with "1.prems" show ?thesis
      by (subst (1 2) show_digits.simps) (simp add: digit_of_digit mult.commute)
  next
    case False
    then have d: "0 \<le> n div 10" "0 \<le> n mod 10" "n mod 10 < 10" by simp_all
    have s: "show_digits n = show_digits (n div 10) @ [digits ! nat (n mod 10)]"
      using False by (subst show_digits.simps) simp
    have "read_digits acc (show_digits n @ rest) =
        read_digits acc (show_digits (n div 10) @ (digits ! nat (n mod 10)) # rest)"
      by (simp add: s)
    also have "\<dots> = read_digits (acc * 10 ^ length (show_digits (n div 10)) + n div 10)
        ((digits ! nat (n mod 10)) # rest)"
      using "1.IH" [OF False d(1)] .
    also have "\<dots> = read_digits (acc * 10 ^ length (show_digits n) + n) rest"
      by (simp add: digit_of_digit [OF d(2,3)] s algebra_simps)
    finally show ?thesis .
  qed
qed

lemma show_digits_single: "n < 10 \<Longrightarrow> show_digits n = [digits ! nat n]"
  by (subst show_digits.simps) simp

lemma show_digits_nonempty: "show_digits n \<noteq> []"
  by (subst show_digits.simps) simp

lemma digit_chars: "0 \<le> d \<Longrightarrow> d < 10 \<Longrightarrow> digits ! nat d \<in> set digits"
  by (intro nth_mem) (simp add: digits_def)

lemma show_digits_set: "0 \<le> n \<Longrightarrow> set (show_digits n) \<subseteq> set digits"
proof (induction n rule: show_digits.induct)
  case (1 n)
  show ?case
  proof (cases "n < 10")
    case True
    with "1.prems" show ?thesis by (simp add: show_digits_single digit_chars)
  next
    case False
    then have d: "0 \<le> n div 10" "0 \<le> n mod 10" "n mod 10 < 10" by simp_all
    have s: "show_digits n = show_digits (n div 10) @ [digits ! nat (n mod 10)]"
      using False by (subst show_digits.simps) simp
    from "1.IH" [OF False d(1)] digit_chars [OF d(2,3)] show ?thesis by (simp add: s)
  qed
qed

lemma nonzero_table: "list_all (\<lambda>d. digits ! nat d \<noteq> CHR ''0'') [1..9]"
  by code_simp

lemma show_digits_leading: "0 < n \<Longrightarrow> hd (show_digits n) \<noteq> CHR ''0''"
proof (induction n rule: show_digits.induct)
  case (1 n)
  show ?case
  proof (cases "n < 10")
    case True
    with "1.prems" nonzero_table show ?thesis
      by (simp add: show_digits_single list_all_iff)
  next
    case False
    then have d: "0 < n div 10" by simp
    have s: "show_digits n = show_digits (n div 10) @ [digits ! nat (n mod 10)]"
      using False by (subst show_digits.simps) simp
    from "1.IH" [OF False d] show ?thesis by (simp add: s show_digits_nonempty)
  qed
qed

lemma read_digits_stop: "ends_number rest \<Longrightarrow> read_digits acc rest = (acc, rest)"
  by (cases rest) (auto simp add: ends_number_def)

lemma read_nat_show_digits:
  assumes "0 \<le> n" and "ends_number rest"
  shows "read_nat (show_digits n @ rest) = Some (n, rest)"
proof -
  have r: "read_digits 0 (show_digits n @ rest) = (n, rest)"
    using assms by (simp add: read_digits_show_digits read_digits_stop)
  have ne: "rest \<noteq> show_digits n @ rest"
    using show_digits_nonempty [of n] by simp
  have lead: "\<not> (hd (show_digits n @ rest) = CHR ''0'' \<and> tl (show_digits n @ rest) \<noteq> rest)"
  proof (cases "n = 0")
    case True
    then show ?thesis by (simp add: show_digits_single digits_def)
  next
    case False
    with assms(1) show_digits_leading [of n] show ?thesis
      by (simp add: show_digits_nonempty)
  qed
  from assms(2) have "\<not> (rest \<noteq> [] \<and> hd rest \<in> set ''.eE'')"
    by (auto simp add: ends_number_def)
  with r ne lead show ?thesis unfolding read_nat_def by simp
qed

lemma show_int_head:
  "\<exists>c cs. show_int i = c # cs \<and> c \<in> set (CHR ''-'' # digits)"
proof (cases "i < 0")
  case True
  then show ?thesis by (simp add: show_int_def)
next
  case False
  then have "set (show_digits i) \<subseteq> set digits" by (intro show_digits_set) simp
  with show_digits_nonempty [of i] False show ?thesis
    by (cases "show_digits i") (auto simp add: show_int_def)
qed

lemma read_int_show_int:
  assumes "ends_number rest"
  shows "read_int (show_int i @ rest) = Some (i, rest)"
proof (cases "i < 0")
  case True
  then show ?thesis
    using assms by (simp add: read_int_def show_int_def read_nat_show_digits)
next
  case False
  then have nn: "0 \<le> i" by simp
  from show_digits_set [OF nn] show_digits_nonempty [of i]
  obtain c cs where c: "show_digits i = c # cs" "c \<in> set digits"
    by (cases "show_digits i") auto
  then have "c \<noteq> CHR ''-''" by (auto simp add: digits_def)
  with read_nat_show_digits [OF nn assms] c False show ?thesis
    by (simp add: read_int_def show_int_def)
qed

lemma parse_value_string:
  "parse_value (Suc n) (CHR '' '' # quote s @ rest) = Some (JStr s, rest)"
  by (simp add: quote_def read_string_quoted is_ws_def)

lemma parse_value_number:
  assumes "ends_number rest"
  shows "parse_value (Suc n) (CHR '' '' # show_int i @ rest) = Some (JNum (Finite i), rest)"
proof -
  from show_int_head [of i] obtain c cs where c: "show_int i = c # cs" "c \<in> set (CHR ''-'' # digits)"
    by blast
  from c(2) have plain: "\<not> is_ws c" "c \<noteq> CHR ''{''" "c \<noteq> CHR ''[''" "c \<noteq> CHR 0x22"
    "c \<noteq> CHR ''n''" "c \<noteq> CHR ''t''" "c \<noteq> CHR ''f''"
    by (auto simp add: digits_def is_ws_def)
  have "read_int (c # cs @ rest) = Some (i, rest)"
    using read_int_show_int [OF assms, of i] c(1) by simp
  with plain show ?thesis by (simp add: c(1) is_ws_def)
qed

lemma ends_number_comma: "ends_number (CHR '','' # rest)"
  by (simp add: ends_number_def digit_of_def digits_def)

lemma parse_value_null:
  "parse_value (Suc n) (CHR '' '' # ''null'' @ rest) = Some (JNull, rest)"
  by (simp add: is_ws_def)

lemma parse_value_written:
  "parse_value (Suc n) (CHR '' '' # stringify_at k (JNum e) @ CHR '','' # rest) =
     Some (as_written (JNum e), CHR '','' # rest)"
proof (cases e)
  case (Finite i)
  then show ?thesis
    using parse_value_number [OF ends_number_comma, of n i rest] by simp
qed (simp_all add: is_ws_def)

lemma parse_token_document:
  "parse_value (Suc (Suc (Suc (Suc (Suc (Suc n))))))
     (stringify_at 0 (JObj [(k1, JStr a), (k2, JStr r), (k3, JNum e), (k4, JStr s)])) =
   Some (JObj [(k1, JStr a), (k2, JStr r), (k3, as_written (JNum e)), (k4, JStr s)], [])"
  by (subst parse_value.simps)
     (simp add: indent_def numeral_2_eq_2 is_ws_def read_string_quoted parse_value_string
        parse_value_written quote_def [of k1] quote_def [of k2]
        quote_def [of k3] quote_def [of k4]
      del: parse_value.simps stringify_at.simps(3) as_written.simps)

lemma at_least_five: "5 \<le> m \<Longrightarrow> \<exists>n. m = Suc (Suc (Suc (Suc (Suc n))))"
  by (intro exI [of _ "m - 5"]) simp

lemma token_document_length:
  "5 \<le> length (stringify_at 0 (JObj [(k1, JStr a), (k2, JStr r), (k3, JNum e), (k4, JStr s)]))"
  by (simp add: indent_def del: stringify_at.simps(3))

lemma reference_roundtrip_flat:
  "reference_parse (reference_stringify (JObj [(k1, JStr a), (k2, JStr r), (k3, JNum e), (k4, JStr s)])) =
     Some (as_written (JObj [(k1, JStr a), (k2, JStr r), (k3, JNum e), (k4, JStr s)]))"
proof -
  let ?v = "JObj [(k1, JStr a), (k2, JStr r), (k3, JNum e), (k4, JStr s)]"
  from at_least_five [OF token_document_length [of k1 a k2 r k3 e k4 s]]
  obtain n where n: "length (stringify_at 0 ?v) = Suc (Suc (Suc (Suc (Suc n))))" by blast
  have "parse_value (Suc (length (stringify_at 0 ?v))) (stringify_at 0 ?v) =
          Some (JObj [(k1, JStr a), (k2, JStr r), (k3, as_written (JNum e)), (k4, JStr s)], [])"
    unfolding n by (rule parse_token_document)
  then show ?thesis
    unfolding reference_parse_def reference_stringify_def by (simp del: stringify_at.simps)
qed

text \<open>
  The reference runtime reads back every token document it writes, with \<^verbatim>\<open>null\<close> where
  the number is not finite.
\<close>

lemma reference_roundtrip_tokens:
  "reference_parse (reference_stringify (json_of_TokenData t)) =
     Some (as_written (json_of_TokenData t))"
  by (simp add: json_of_TokenData_def reference_roundtrip_flat del: as_written.simps)

section \<open>Facts about the store\<close>

lemma mode_bits:
  "owner_can_read mode_0o600" "owner_can_write mode_0o600" "owner_only mode_0o600"
  "owner_can_search mode_0o700" "owner_can_write mode_0o700" "owner_only mode_0o700"
  by (simp_all add: owner_can_read_def owner_can_write_def owner_only_def owner_can_search_def
        mode_0o600_def mode_0o700_def bit_iff_odd)

lemma readFile_settles: "readFile d \<noteq> Pending"
  by (cases d rule: readFile.cases) auto

lemma readFile_Resolved_iff:
  "readFile d = Resolved data \<longleftrightarrow>
     (\<exists>dm f. d = Dir dm (Some f) \<and> owner_can_search dm \<and> owner_can_read (mode f) \<and> content f = data)"
  by (cases d rule: readFile.cases) auto

text \<open>The validating \<^verbatim>\<open>load\<close> always resolves: nothing escapes its \<^verbatim>\<open>catch\<close>.\<close>

lemma load_resolves: "\<exists>r. load P w = Resolved r"
  using readFile_settles [of "fs w"] unfolding load_def
  by (cases "readFile (fs w)") (auto simp add: parse_or_throw_def split: option.splits)

lemma load_Some_iff:
  "load P w = Resolved (Some t) \<longleftrightarrow>
     (\<exists>data v. readFile (fs w) = Resolved data \<and> P data = Some v \<and>
        isValidTokenData v \<and> t = as_TokenData v)"
  unfolding load_def
  by (cases "readFile (fs w)") (auto simp add: parse_or_throw_def split: option.splits)

lemma isValid_json_of: "isValidTokenData (json_of_TokenData t)"
  by (simp add: isValidTokenData_def json_of_TokenData_def)

lemma as_json_of: "as_TokenData (json_of_TokenData t) = t"
  by (simp add: as_TokenData_def json_of_TokenData_def)

text \<open>
  A token document is written as it is when its \<^verbatim>\<open>expires_at\<close> is finite; otherwise
  the written document has \<^verbatim>\<open>"expires_at": null\<close> and does not pass
  \<^verbatim>\<open>isValidTokenData\<close>.
\<close>

lemma as_written_json_of:
  "isFinite (expires_at t) \<Longrightarrow> as_written (json_of_TokenData t) = json_of_TokenData t"
  by (simp add: json_of_TokenData_def)

lemma isValid_as_written:
  "isValidTokenData (as_written (json_of_TokenData t)) \<longleftrightarrow> isFinite (expires_at t)"
  by (simp add: isValidTokenData_def json_of_TokenData_def)

lemma load_of_text:
  assumes "readFile (fs w) = Resolved data" and "P data = Some v"
  shows "load P w = Resolved (if isValidTokenData v then Some (as_TokenData v) else None)"
  using assms by (simp add: load_def parse_or_throw_def)

text \<open>
  What a resolved \<^verbatim>\<open>save\<close> (the variant ending with \<^verbatim>\<open>chmod\<close>) leaves behind: the
  file holds the serialised tokens with mode \<^verbatim>\<open>0o600\<close>, whatever its mode was before;
  a directory that was missing now exists with mode \<^verbatim>\<open>0o700\<close>, an existing one keeps
  its mode; nothing else in the world changes.
\<close>

lemma save_Resolved:
  assumes "save S t w = (Resolved u, w')"
  shows "\<exists>dm. fs w' = Dir dm (Some \<lparr>content = S (json_of_TokenData t), mode = mode_0o600\<rparr>)
           \<and> owner_can_search dm
           \<and> (fs w = NoDir \<longrightarrow> dm = mode_0o700)
           \<and> (\<forall>dm0 f0. fs w = Dir dm0 f0 \<longrightarrow> dm = dm0)
           \<and> w' = w\<lparr>fs := fs w'\<rparr>"
  using assms
  by (auto simp add: save_def mkdir_def writeFile_def chmod_def mode_bits
           split: directory.splits option.splits if_splits)

lemma load_after_save:
  assumes "save S t w = (Resolved u, w')"
    and "P (S (json_of_TokenData t)) = Some (as_written (json_of_TokenData t))"
  shows "load P w' = Resolved (if isFinite (expires_at t) then Some t else None)"
proof -
  from save_Resolved [OF assms(1)] obtain dm where
    "fs w' = Dir dm (Some \<lparr>content = S (json_of_TokenData t), mode = mode_0o600\<rparr>)"
    "owner_can_search dm" by blast
  then have "readFile (fs w') = Resolved (S (json_of_TokenData t))"
    by (simp add: mode_bits)
  from load_of_text [where P = P, OF this assms(2)] show ?thesis
    by (simp add: isValid_as_written as_written_json_of as_json_of del: as_written.simps)
qed

lemma save_world0:
  "save reference_stringify valid_tokens world0 = (Resolved (), world_with valid_tokens)"
  by (simp add: save_def mkdir_def writeFile_def chmod_def world0_def world_with_def
        world_with_document_def mode_bits)

lemma save_nan_tokens:
  "save reference_stringify nan_tokens world0 = (Resolved (), world_with nan_tokens)"
  by (simp add: save_def mkdir_def writeFile_def chmod_def world0_def world_with_def
        world_with_document_def mode_bits)

text \<open>
  With the reference runtime, what \<^verbatim>\<open>save\<close> wrote is what \<^verbatim>\<open>load\<close> returns when
  \<^verbatim>\<open>expires_at\<close> is finite, and \<^verbatim>\<open>load\<close> returns \<^verbatim>\<open>null\<close> when it is not.
\<close>

lemma reference_save_load:
  assumes "save reference_stringify t w = (Resolved u, w')"
  shows "load reference_parse w' = Resolved (if isFinite (expires_at t) then Some t else None)"
  using assms reference_roundtrip_tokens by (rule load_after_save)

section \<open>Claims about the store\<close>

text \<open>
  C7. \<^verbatim>\<open>isExpired(t)\<close> is false for every token set whose \<^verbatim>\<open>expires_at\<close> lies strictly
  more than 60,000 ms after the current instant, and true for every token set whose
  \<^verbatim>\<open>expires_at\<close> is at or before the current instant plus 60,000 ms, that is exactly
  when \<^verbatim>\<open>expires_at - 60000 <= now\<close>. The comparisons are those of JavaScript
  numbers, so the statement covers every value of \<^verbatim>\<open>expires_at\<close>; for a finite
  \<^verbatim>\<open>expires_at\<close> they are the comparisons of the integers.
\<close>

theorem isExpired_buffer:
  "(number_lt (Finite (now w + 60000)) (expires_at t) \<longrightarrow> \<not> isExpired t w) \<and>
   (number_le (expires_at t) (Finite (now w + 60000)) \<longrightarrow> isExpired t w) \<and>
   (isExpired t w \<longleftrightarrow> number_le (number_sub (expires_at t) (Finite 60000)) (Finite (now w))) \<and>
   (\<forall>e. expires_at t = Finite e \<longrightarrow>
      (now w + 60000 < e \<longrightarrow> \<not> isExpired t w) \<and>
      (e \<le> now w + 60000 \<longrightarrow> isExpired t w) \<and>
      (isExpired t w \<longleftrightarrow> e - 60000 \<le> now w))"
  by (cases "expires_at t") (auto simp add: isExpired_def number_sub_def EXPIRY_BUFFER_MS_def)

theorem isExpired_buffer_witness:
  "now world0 + 60000 < 1700003600000 \<and> expires_at valid_tokens = Finite 1700003600000 \<and>
   \<not> isExpired valid_tokens world0 \<and>
   1699999999000 \<le> now world0 + 60000 \<and> expires_at expired_tokens = Finite 1699999999000 \<and>
   isExpired expired_tokens world0 \<and>
   1700000060000 \<le> now world0 + 60000 \<and>
   isExpired (valid_tokens\<lparr>expires_at := Finite 1700000060000\<rparr>) world0 \<and>
   now world0 + 60000 < 1700000060001 \<and>
   \<not> isExpired (valid_tokens\<lparr>expires_at := Finite 1700000060001\<rparr>) world0 \<and>
   number_lt (Finite (now world0 + 60000)) PosInfinity \<and>
   \<not> isExpired (valid_tokens\<lparr>expires_at := PosInfinity\<rparr>) world0 \<and>
   number_le NegInfinity (Finite (now world0 + 60000)) \<and>
   isExpired (valid_tokens\<lparr>expires_at := NegInfinity\<rparr>) world0"
  using isExpired_buffer [where w = world0 and t = valid_tokens]
    isExpired_buffer [where w = world0 and t = expired_tokens]
    isExpired_buffer [where w = world0 and t = "valid_tokens\<lparr>expires_at := Finite 1700000060000\<rparr>"]
    isExpired_buffer [where w = world0 and t = "valid_tokens\<lparr>expires_at := Finite 1700000060001\<rparr>"]
    isExpired_buffer [where w = world0 and t = "valid_tokens\<lparr>expires_at := PosInfinity\<rparr>"]
    isExpired_buffer [where w = world0 and t = "valid_tokens\<lparr>expires_at := NegInfinity\<rparr>"]
  by (simp add: world0_def valid_tokens_def expired_tokens_def)

text \<open>
  C8, as the code has it. For every token set \<open>t\<close> whose \<^verbatim>\<open>expires_at\<close> is a finite
  number, \<^verbatim>\<open>save(t)\<close> followed by \<^verbatim>\<open>load()\<close> on the same store path returns a token
  set equal to \<open>t\<close>; when \<^verbatim>\<open>expires_at\<close> is \<^verbatim>\<open>NaN\<close>, \<^verbatim>\<open>Infinity\<close> or
  \<^verbatim>\<open>-Infinity\<close>, the file holds \<^verbatim>\<open>"expires_at": null\<close> and \<^verbatim>\<open>load()\<close> returns
  \<^verbatim>\<open>null\<close>. The statement is about a \<^verbatim>\<open>save\<close> that resolves, in any world and from
  any earlier state of the file, and a runtime whose \<^verbatim>\<open>JSON.parse\<close> reads the text
  that its \<^verbatim>\<open>JSON.stringify\<close> wrote for \<open>t\<close> as the value written (\<open>as_written\<close>), as
  the reference runtime does for every \<open>t\<close> (\<open>reference_roundtrip_tokens\<close>).
\<close>

theorem save_then_load:
  assumes "save S t w = (Resolved u, w')"
    and "P (S (json_of_TokenData t)) = Some (as_written (json_of_TokenData t))"
  shows "load P w' = Resolved (if isFinite (expires_at t) then Some t else None)"
  using assms by (rule load_after_save)

theorem save_then_load_witness:
  "save reference_stringify valid_tokens world0 = (Resolved (), world_with valid_tokens) \<and>
   reference_parse (reference_stringify (json_of_TokenData valid_tokens)) =
     Some (as_written (json_of_TokenData valid_tokens)) \<and>
   isFinite (expires_at valid_tokens) \<and>
   load reference_parse (world_with valid_tokens) = Resolved (Some valid_tokens)"
  using save_then_load [where S = reference_stringify and P = reference_parse,
      OF save_world0 reference_roundtrip_tokens]
    save_world0 reference_roundtrip_tokens
  by (simp add: valid_tokens_def)

text \<open>
  C8 for every token set fails where \<^verbatim>\<open>expires_at\<close> is \<^verbatim>\<open>NaN\<close>, as in the token
  set that \<^verbatim>\<open>exchangeCode\<close> builds from a success response without \<^verbatim>\<open>expires_in\<close>
  (\<open>exchangeCode_without_expires_in\<close>): \<^verbatim>\<open>save\<close> resolves, and \<^verbatim>\<open>load\<close> then
  returns \<^verbatim>\<open>null\<close>, not the token set.
\<close>

theorem save_then_load_NaN:
  "save reference_stringify nan_tokens world0 = (Resolved (), world_with nan_tokens) \<and>
   load reference_parse (world_with nan_tokens) = Resolved None \<and>
   load reference_parse (world_with nan_tokens) \<noteq> Resolved (Some nan_tokens)"
  using reference_save_load [OF save_nan_tokens] save_nan_tokens
  by (simp add: nan_tokens_def)

section \<open>Facts about the listener that validates the state\<close>

lemmas listener_defs =
  waitForCallback_nostate_def waitForCallback_state_def handler_nostate_def handler_state_def
  searchParams_get_def respond_def server_close_def console_error_def timer_fires_def
  CALLBACK_TIMEOUT_MS_def

lemmas client_defs =
  authorize_def authorize_nostate_def authorize_state_def randomBytes_hex_def open_command_def
  exchangeCode_def refreshToken_def fetch_def ok_def tokens_from_def DEFAULT_PORT_def Let_def

text \<open>What one run of the handler can do.\<close>

lemma handler_state_cases:
  "handler_state port expected req w = (out, w') \<Longrightarrow>
     (out = None \<and> \<not> settles expected req \<and> bound w' = bound w \<and> now w' = now w)
   \<or> (\<exists>e. out = Some (Rejected e) \<and> (e = AuthorizationDenied \<or> e = StateMismatch) \<and>
          settles expected req \<and> bound w' = bound w - {port} \<and> now w' = now w)
   \<or> (out = Some (Resolved (the (searchParams_get req ''code''), port)) \<and>
        pathname req = ''/callback'' \<and>
        \<not> strict_neq (searchParams_get req ''state'') expected \<and>
        truthy (searchParams_get req ''code'') \<and> bound w' = bound w \<and> now w' = now w)"
  by (auto simp add: handler_state_def settles_def Let_def respond_def server_close_def
      split: if_splits)

text \<open>
  A request to the callback path whose state differs from the expected one is never
  accepted: the handler rejects and closes the server. The rejection is the state
  mismatch, unless the request also carries an \<^verbatim>\<open>error\<close> parameter, which is tested
  first and reported as a denial.
\<close>

lemma handler_state_mismatch:
  assumes "pathname req = ''/callback''"
    and "strict_neq (searchParams_get req ''state'') expected"
  shows "fst (handler_state port expected req w) =
           Some (Rejected (if truthy (searchParams_get req ''error'')
                           then AuthorizationDenied else StateMismatch))"
    and "port \<notin> bound (snd (handler_state port expected req w))"
  using assms by (simp_all add: handler_state_def Let_def respond_def server_close_def)

text \<open>The listener with a timer always settles.\<close>

lemma serve_state_settles: "fst (serve_state t0 port expected reqs w) \<noteq> Pending"
proof (induction reqs arbitrary: w)
  case Nil
  then show ?case by (simp add: timer_fires_def)
next
  case (Cons a reqs)
  obtain t req where a: "a = (t, req)" by (cases a)
  obtain out w' where h: "handler_state port expected req (w\<lparr>now := t0 + int t\<rparr>) = (out, w')"
    by (cases "handler_state port expected req (w\<lparr>now := t0 + int t\<rparr>)")
  from handler_state_cases [OF h] Cons.IH [of w'] show ?case
    by (cases out) (auto simp add: a h timer_fires_def)
qed

text \<open>It settles no later than the timeout after its start.\<close>

lemma serve_state_elapsed:
  "serve_state t0 port expected reqs w = (r, w') \<Longrightarrow> now w' \<le> t0 + int CALLBACK_TIMEOUT_MS"
proof (induction reqs arbitrary: w)
  case Nil
  then show ?case by (auto simp add: timer_fires_def server_close_def)
next
  case (Cons a reqs)
  obtain t req where a: "a = (t, req)" by (cases a)
  obtain out w1 where h: "handler_state port expected req (w\<lparr>now := t0 + int t\<rparr>) = (out, w1)"
    by (cases "handler_state port expected req (w\<lparr>now := t0 + int t\<rparr>)")
  show ?case
  proof (cases "CALLBACK_TIMEOUT_MS \<le> t")
    case True
    with Cons.prems show ?thesis by (auto simp add: a timer_fires_def server_close_def)
  next
    case False
    from handler_state_cases [OF h] have n: "now w1 = t0 + int t" by auto
    show ?thesis
    proof (cases out)
      case None
      with Cons.prems False h a have "serve_state t0 port expected reqs w1 = (r, w')" by simp
      then show ?thesis by (rule Cons.IH)
    next
      case (Some o1)
      with Cons.prems False h a have "w' = w1" by simp
      with n False show ?thesis by simp
    qed
  qed
qed

text \<open>Every rejection leaves the port released.\<close>

lemma serve_state_Rejected:
  "serve_state t0 port expected reqs w = (Rejected e, w') \<Longrightarrow> port \<notin> bound w'"
proof (induction reqs arbitrary: w)
  case Nil
  then show ?case by (auto simp add: timer_fires_def server_close_def)
next
  case (Cons a reqs)
  obtain t req where a: "a = (t, req)" by (cases a)
  obtain out w1 where h: "handler_state port expected req (w\<lparr>now := t0 + int t\<rparr>) = (out, w1)"
    by (cases "handler_state port expected req (w\<lparr>now := t0 + int t\<rparr>)")
  show ?case
  proof (cases "CALLBACK_TIMEOUT_MS \<le> t")
    case True
    with Cons.prems show ?thesis by (auto simp add: a timer_fires_def server_close_def)
  next
    case False
    show ?thesis
    proof (cases out)
      case None
      with Cons.prems False h a
      have "serve_state t0 port expected reqs w1 = (Rejected e, w')" by simp
      then show ?thesis by (rule Cons.IH)
    next
      case (Some o1)
      with Cons.prems False h a have "w' = w1" "o1 = Rejected e" by simp_all
      with handler_state_cases [OF h] Some show ?thesis by auto
    qed
  qed
qed

text \<open>It resolves only on a request, in time, that carries the expected state and a code.\<close>

lemma serve_state_Resolved:
  "serve_state t0 port expected reqs w = (Resolved x, w') \<Longrightarrow>
     \<exists>t req. (t, req) \<in> set reqs \<and> t < CALLBACK_TIMEOUT_MS \<and> pathname req = ''/callback'' \<and>
        \<not> strict_neq (searchParams_get req ''state'') expected \<and>
        searchParams_get req ''code'' = Some (fst x) \<and> snd x = port"
proof (induction reqs arbitrary: w)
  case Nil
  then show ?case by (auto simp add: timer_fires_def)
next
  case (Cons a reqs)
  obtain t req where a: "a = (t, req)" by (cases a)
  obtain out w1 where h: "handler_state port expected req (w\<lparr>now := t0 + int t\<rparr>) = (out, w1)"
    by (cases "handler_state port expected req (w\<lparr>now := t0 + int t\<rparr>)")
  show ?case
  proof (cases "CALLBACK_TIMEOUT_MS \<le> t")
    case True
    with Cons.prems show ?thesis by (auto simp add: a timer_fires_def)
  next
    case False
    show ?thesis
    proof (cases out)
      case None
      with Cons.prems False h a
      have "serve_state t0 port expected reqs w1 = (Resolved x, w')" by simp
      from Cons.IH [OF this] show ?thesis by auto
    next
      case (Some o1)
      with Cons.prems False h a have "o1 = Resolved x" by simp
      with handler_state_cases [OF h] Some
      have "pathname req = ''/callback''"
        "\<not> strict_neq (searchParams_get req ''state'') expected"
        "truthy (searchParams_get req ''code'')"
        "x = (the (searchParams_get req ''code''), port)"
        by auto
      moreover from this(3) obtain c where "searchParams_get req ''code'' = Some c"
        by (cases "searchParams_get req ''code''") auto
      ultimately show ?thesis using False a by (intro exI [of _ t] exI [of _ req]) auto
    qed
  qed
qed

text \<open>
  When no request that arrives before the timeout settles the promise, the timer does:
  the promise rejects with the timeout error and the port is released.
\<close>

lemma serve_state_timeout:
  assumes "\<forall>(t, req) \<in> set reqs. t < CALLBACK_TIMEOUT_MS \<longrightarrow> \<not> settles expected req"
  shows "\<exists>w'. serve_state t0 port expected reqs w = (Rejected CallbackTimeout, w') \<and>
           port \<notin> bound w' \<and> now w' = t0 + int CALLBACK_TIMEOUT_MS"
  using assms
proof (induction reqs arbitrary: w)
  case Nil
  then show ?case by (simp add: timer_fires_def server_close_def)
next
  case (Cons a reqs)
  obtain t req where a: "a = (t, req)" by (cases a)
  show ?case
  proof (cases "CALLBACK_TIMEOUT_MS \<le> t")
    case True
    then show ?thesis by (simp add: a timer_fires_def server_close_def)
  next
    case False
    obtain out w1 where h: "handler_state port expected req (w\<lparr>now := t0 + int t\<rparr>) = (out, w1)"
      by (cases "handler_state port expected req (w\<lparr>now := t0 + int t\<rparr>)")
    from Cons.prems False a have "\<not> settles expected req" by auto
    with handler_state_cases [OF h] have "out = None" by (auto simp add: settles_def)
    moreover from Cons.prems
    have "\<forall>(t, req) \<in> set reqs. t < CALLBACK_TIMEOUT_MS \<longrightarrow> \<not> settles expected req" by auto
    from Cons.IH [OF this, of w1]
    obtain w' where "serve_state t0 port expected reqs w1 = (Rejected CallbackTimeout, w')"
      "port \<notin> bound w'" "now w' = t0 + int CALLBACK_TIMEOUT_MS" by blast
    ultimately show ?thesis using False h a by simp
  qed
qed

lemma waitForCallback_state_settles: "fst (waitForCallback_state port expected w) \<noteq> Pending"
  by (simp add: waitForCallback_state_def serve_state_settles)

lemma waitForCallback_state_elapsed:
  "waitForCallback_state port expected w = (r, w') \<Longrightarrow>
     now w' \<le> now w + int CALLBACK_TIMEOUT_MS"
  by (auto simp add: waitForCallback_state_def split: if_splits dest: serve_state_elapsed)

lemma waitForCallback_state_Rejected:
  "waitForCallback_state port expected w = (Rejected e, w') \<Longrightarrow> port \<notin> bound w \<Longrightarrow>
     port \<notin> bound w'"
  by (auto simp add: waitForCallback_state_def split: if_splits dest: serve_state_Rejected)

lemma waitForCallback_state_Resolved:
  "waitForCallback_state port expected w = (Resolved x, w') \<Longrightarrow>
     \<exists>t req. (t, req) \<in> set (inbound w) \<and> t < CALLBACK_TIMEOUT_MS \<and>
        pathname req = ''/callback'' \<and>
        \<not> strict_neq (searchParams_get req ''state'') expected \<and>
        searchParams_get req ''code'' = Some (fst x) \<and> snd x = port"
  by (auto simp add: waitForCallback_state_def split: if_splits dest: serve_state_Resolved)

lemma waitForCallback_state_timeout:
  assumes "port \<notin> bound w"
    and "\<forall>(t, req) \<in> set (inbound w). t < CALLBACK_TIMEOUT_MS \<longrightarrow> \<not> settles expected req"
  shows "\<exists>w'. waitForCallback_state port expected w = (Rejected CallbackTimeout, w') \<and>
           port \<notin> bound w' \<and> now w' = now w + int CALLBACK_TIMEOUT_MS"
  using serve_state_timeout [OF assms(2)] assms(1)
  unfolding waitForCallback_state_def by (auto simp add: console_error_def)

text \<open>The only rejections are the denial, the state mismatch and the timeout.\<close>

lemma serve_state_errors:
  "serve_state t0 port expected reqs w = (Rejected e, w') \<Longrightarrow>
     e = AuthorizationDenied \<or> e = StateMismatch \<or> e = CallbackTimeout"
proof (induction reqs arbitrary: w)
  case Nil
  then show ?case by (auto simp add: timer_fires_def)
next
  case (Cons a reqs)
  obtain t req where a: "a = (t, req)" by (cases a)
  obtain out w1 where h: "handler_state port expected req (w\<lparr>now := t0 + int t\<rparr>) = (out, w1)"
    by (cases "handler_state port expected req (w\<lparr>now := t0 + int t\<rparr>)")
  show ?case
  proof (cases "CALLBACK_TIMEOUT_MS \<le> t")
    case True
    with Cons.prems show ?thesis by (auto simp add: a timer_fires_def)
  next
    case False
    show ?thesis
    proof (cases out)
      case None
      with Cons.prems False h a
      have "serve_state t0 port expected reqs w1 = (Rejected e, w')" by simp
      then show ?thesis by (rule Cons.IH)
    next
      case (Some o1)
      with Cons.prems False h a have "o1 = Rejected e" by simp
      with handler_state_cases [OF h] Some show ?thesis by auto
    qed
  qed
qed

text \<open>After the timeout a new listener binds the same port: its listen does not fail.\<close>

lemma waitForCallback_state_rebinds:
  assumes "port \<notin> bound w"
    and "\<forall>(t, req) \<in> set (inbound w). t < CALLBACK_TIMEOUT_MS \<longrightarrow> \<not> settles expected req"
    and "waitForCallback_state port expected w = (r, w')"
  shows "fst (waitForCallback_state port expected' w') \<noteq> Rejected (ListenError EADDRINUSE)"
proof -
  from waitForCallback_state_timeout [OF assms(1,2)] assms(3) have free: "port \<notin> bound w'"
    by auto
  obtain r2 w2 where s: "waitForCallback_state port expected' w' = (r2, w2)"
    by (cases "waitForCallback_state port expected' w'")
  have "r2 \<noteq> Rejected (ListenError EADDRINUSE)"
  proof
    assume "r2 = Rejected (ListenError EADDRINUSE)"
    with s free have "\<exists>t0 reqs v. serve_state t0 port expected' reqs v =
        (Rejected (ListenError EADDRINUSE), w2)"
      by (auto simp add: waitForCallback_state_def)
    then show False using serve_state_errors by blast
  qed
  with s show ?thesis by simp
qed

text \<open>
  \<^verbatim>\<open>authorize\<close> passes no expected state. Called that way, the validating listener
  compares every state with \<^verbatim>\<open>undefined\<close> and accepts no callback at all; the
  flow then settles within the timeout, never with tokens, and leaves the port free.
\<close>

lemma strict_neq_undefined: "strict_neq s None"
  by (cases s) simp_all

lemma authorize_state_outcome:
  assumes "authorize_state cfg port w = (r, w')" and "port \<notin> bound w"
  shows "(\<exists>e. r = Rejected e) \<and> port \<notin> bound w' \<and> now w' \<le> now w + int CALLBACK_TIMEOUT_MS"
proof -
  define w0 where "w0 = snd (randomBytes_hex w)"
  define w1 where "w1 = (let authUrl = buildAuthorizationUrl cfg (fst (randomBytes_hex w));
       v = console_error (Message (CHR 0x0A # ''Please open this URL in your browser to authenticate:'')) w0;
       v = console_error (ShowUrl authUrl) v
    in v\<lparr>launched := launched v @ [open_command (platform v) authUrl]\<rparr>)"
  have eq: "authorize_state cfg port w =
      await_in (waitForCallback_state port None w1)
        (\<lambda>(code, server) w. exchangeCode cfg code (server_close server w))"
    by (simp add: authorize_state_def authorize_def w1_def w0_def Let_def split: prod.splits)
  have frame: "bound w1 = bound w" "now w1 = now w"
    by (simp_all add: w1_def w0_def randomBytes_hex_def console_error_def Let_def)
  obtain p w2 where l: "waitForCallback_state port None w1 = (p, w2)"
    by (cases "waitForCallback_state port None w1")
  show ?thesis
  proof (cases p)
    case (Resolved x)
    with waitForCallback_state_Resolved [of port None w1 x w2] l strict_neq_undefined
    show ?thesis by auto
  next
    case (Rejected e)
    with assms eq l have "r = Rejected e" "w' = w2" by simp_all
    with waitForCallback_state_Rejected [of port None w1 e w2]
      waitForCallback_state_elapsed [of port None w1 p w2] l Rejected assms(2) frame
    show ?thesis by simp
  next
    case Pending
    with waitForCallback_state_settles [of port None w1] l show ?thesis by simp
  qed
qed

section \<open>Facts about the listener without state\<close>

text \<open>
  The handler accepts any callback that carries a code and no error; the \<^verbatim>\<open>state\<close>
  parameter is not read.
\<close>

lemma handler_nostate_accepts:
  assumes "pathname req = ''/callback''"
    and "\<not> truthy (searchParams_get req ''error'')"
    and "searchParams_get req ''code'' = Some c" and "c \<noteq> []"
  shows "fst (handler_nostate port req w) = Some (Resolved (c, port))"
  using assms by (simp add: handler_nostate_def Let_def)

text \<open>The listener never closes its server: whatever the outcome, the port stays bound.\<close>

lemma serve_nostate_bound:
  "serve_nostate t0 port reqs w = (r, w') \<Longrightarrow> bound w' = bound w"
proof (induction reqs arbitrary: w)
  case Nil
  then show ?case by simp
next
  case (Cons a reqs)
  obtain t req where a: "a = (t, req)" by (cases a)
  obtain out w1 where h: "handler_nostate port req (w\<lparr>now := t0 + int t\<rparr>) = (out, w1)"
    by (cases "handler_nostate port req (w\<lparr>now := t0 + int t\<rparr>)")
  then have b: "bound w1 = bound w"
    by (auto simp add: handler_nostate_def Let_def respond_def split: if_splits)
  show ?case
  proof (cases out)
    case None
    with Cons.prems h a have "serve_nostate t0 port reqs w1 = (r, w')" by simp
    from Cons.IH [OF this] b show ?thesis by simp
  next
    case (Some o1)
    with Cons.prems h a have "w' = w1" by simp
    with b show ?thesis by simp
  qed
qed

lemma waitForCallback_nostate_bound:
  "waitForCallback_nostate port w = (r, w') \<Longrightarrow> port \<in> bound w'"
  by (auto simp add: waitForCallback_nostate_def console_error_def split: if_splits
      dest: serve_nostate_bound)

text \<open>It has no timer: while no callback carries an error or a code, it stays pending.\<close>

lemma serve_nostate_pending:
  assumes "\<forall>(t, req) \<in> set reqs.
             pathname req = ''/callback'' \<longrightarrow>
               \<not> truthy (searchParams_get req ''error'') \<and> \<not> truthy (searchParams_get req ''code'')"
  shows "fst (serve_nostate t0 port reqs w) = Pending"
  using assms
proof (induction reqs arbitrary: w)
  case Nil
  then show ?case by simp
next
  case (Cons a reqs)
  obtain t req where a: "a = (t, req)" by (cases a)
  with Cons.prems have "fst (handler_nostate port req (w\<lparr>now := t0 + int t\<rparr>)) = None"
    by (auto simp add: handler_nostate_def Let_def)
  moreover from Cons.prems have "\<forall>(t, req) \<in> set reqs.
             pathname req = ''/callback'' \<longrightarrow>
               \<not> truthy (searchParams_get req ''error'') \<and> \<not> truthy (searchParams_get req ''code'')"
    by auto
  note Cons.IH [OF this]
  ultimately show ?case
    by (cases "handler_nostate port req (w\<lparr>now := t0 + int t\<rparr>)") (simp add: a)
qed

section \<open>Facts about the client and the example data\<close>

text \<open>\<^verbatim>\<open>refreshToken\<close> settles, and touches nothing but the traffic with the endpoint.\<close>

lemma refreshToken_frame:
  "refreshToken cfg r w = (p, w') \<Longrightarrow>
     fs w' = fs w \<and> now w' = now w \<and> bound w' = bound w \<and> inbound w' = inbound w \<and>
     console w' = console w \<and> launched w' = launched w \<and>
     posted w' = posted w @ [buildRefreshRequestBody cfg r] \<and> p \<noteq> Pending"
  by (auto simp add: refreshToken_def fetch_def
      split: list.splits fetch_outcome.splits if_splits option.splits)

lemma reference_roundtrip_foreign_document:
  "reference_parse (reference_stringify foreign_document) = Some foreign_document"
  by code_simp

lemma load_world_with:
  "isFinite (expires_at t) \<Longrightarrow> load reference_parse (world_with t) = Resolved (Some t)"
  unfolding load_Some_iff
  by (simp add: world_with_def world_with_document_def mode_bits isValid_json_of as_json_of
      reference_roundtrip_tokens as_written_json_of del: as_written.simps)

text \<open>
  From a success response without \<^verbatim>\<open>expires_in\<close>, \<^verbatim>\<open>exchangeCode\<close> resolves with
  a token set whose \<^verbatim>\<open>expires_at\<close> is \<^verbatim>\<open>NaN\<close>; \<^verbatim>\<open>isExpired\<close> is false of it at
  every instant.
\<close>

lemma exchangeCode_without_expires_in:
  "fst (exchangeCode example_config ''granted-code''
          (world0\<lparr>token_endpoint := [reply_without_expires_in]\<rparr>)) = Resolved nan_tokens"
  by (simp add: exchangeCode_def fetch_def ok_def tokens_from_def nan_tokens_def world0_def
        reply_without_expires_in_def)

lemma isExpired_NaN: "expires_at t = NaN \<Longrightarrow> \<not> isExpired t w"
  by (simp add: isExpired_def number_sub_def)

lemma load_valid_tokens:
  "load reference_parse (world_with valid_tokens) = Resolved (Some valid_tokens)"
  by (rule load_world_with) (simp add: valid_tokens_def)

lemma load_expired_tokens:
  "load reference_parse (world_with expired_tokens) = Resolved (Some expired_tokens)"
  by (rule load_world_with) (simp add: expired_tokens_def)

section \<open>Claims about the manager\<close>

text \<open>
  C1. For every stored token set that is expired, if \<^verbatim>\<open>refreshToken\<close> fails with any
  error, \<^verbatim>\<open>getValidToken()\<close> catches the failure and never surfaces it, performs no
  store write as a result of the failed refresh (the stored token set is still intact
  at that point), and instead runs the full interactive flow, persists that flow's
  result, and returns it. In the statement \<open>w1\<close> is the world in which the refresh has
  failed: the token file is as before and still loads; the outcome of
  \<^verbatim>\<open>getValidToken\<close> is the outcome of \<^verbatim>\<open>doInteractiveAuth\<close> from there, after the
  console line; and when \<^verbatim>\<open>authorize\<close> yields tokens and \<^verbatim>\<open>save\<close> resolves, those
  tokens are returned and the token file holds them.
\<close>

theorem getValidToken_refresh_failure:
  assumes "load (JSON_parse d) w = Resolved (Some t)"
    and "isExpired t w"
    and "refreshToken (config d) (refresh_token t) w = (Rejected err, w1)"
  shows "fs w1 = fs w \<and>
         load (JSON_parse d) w1 = Resolved (Some t) \<and>
         getValidToken d w =
           doInteractiveAuth d
             (console_error (Message ''Token refresh failed. Starting interactive auth...'') w1) \<and>
         (\<forall>tokens w2 u w3.
            authorize (waitForCallback d) (config d) DEFAULT_PORT
              (console_error (Message ''Token refresh failed. Starting interactive auth...'') w1) =
              (Resolved tokens, w2) \<and>
            save (JSON_stringify d) tokens w2 = (Resolved u, w3) \<longrightarrow>
              getValidToken d w = (Resolved tokens, w3) \<and>
              (\<exists>dm. fs w3 = Dir dm (Some \<lparr>content = JSON_stringify d (json_of_TokenData tokens),
                                           mode = mode_0o600\<rparr>)))"
proof -
  from refreshToken_frame [OF assms(3)] have f: "fs w1 = fs w" by simp
  then have l: "load (JSON_parse d) w1 = Resolved (Some t)"
    using assms(1) by (simp add: load_def)
  have g: "getValidToken d w =
      doInteractiveAuth d
        (console_error (Message ''Token refresh failed. Starting interactive auth...'') w1)"
    using assms by (simp add: getValidToken_def)
  have "getValidToken d w = (Resolved tokens, w3) \<and>
        (\<exists>dm. fs w3 = Dir dm (Some \<lparr>content = JSON_stringify d (json_of_TokenData tokens),
                                     mode = mode_0o600\<rparr>))"
    if "authorize (waitForCallback d) (config d) DEFAULT_PORT
          (console_error (Message ''Token refresh failed. Starting interactive auth...'') w1) =
          (Resolved tokens, w2)"
      and "save (JSON_stringify d) tokens w2 = (Resolved u, w3)" for tokens w2 u w3
    using that g save_Resolved [OF that(2)] by (auto simp add: doInteractiveAuth_def)
  with f l g show ?thesis by blast
qed

lemma refresh_refused_outcome:
  "refreshToken (config example_deps) (refresh_token expired_tokens) world_refresh_refused =
     (Rejected (TokenRefreshFailed 400 ''invalid_grant''),
      world_refresh_refused
        \<lparr>posted := [buildRefreshRequestBody example_config ''expired-refresh''],
         token_endpoint := [token_reply]\<rparr>)"
  by (simp add: client_defs world_refresh_refused_def world_with_def world_with_document_def
      world0_def refresh_refused_def expired_tokens_def example_deps_def)

lemma interactive_after_refusal:
  "doInteractiveAuth example_deps
     (console_error (Message ''Token refresh failed. Starting interactive auth...'')
        (world_refresh_refused
           \<lparr>posted := [buildRefreshRequestBody example_config ''expired-refresh''],
            token_endpoint := [token_reply]\<rparr>)) =
   (Resolved (valid_tokens\<lparr>expires_at := Finite 1700003601000\<rparr>),
    (world_with (valid_tokens\<lparr>expires_at := Finite 1700003601000\<rparr>))
      \<lparr>now := 1700000001000,
       posted := [buildRefreshRequestBody example_config ''expired-refresh'',
                  buildTokenRequestBody example_config ''granted-code''],
       drawn := 1,
       served := [(200, SuccessPage)],
       console := [Message ''Token refresh failed. Starting interactive auth...'',
                   Message (CHR 0x0A # ''Please open this URL in your browser to authenticate:''),
                   ShowUrl (buildAuthorizationUrl example_config ''0123456789abcdef0123456789abcdef''),
                   ListeningOn 3456],
       launched := [(''xdg-open'',
                     [UrlArg (buildAuthorizationUrl example_config ''0123456789abcdef0123456789abcdef'')])]\<rparr>)"
  by (simp add: doInteractiveAuth_def listener_defs client_defs save_def mkdir_def writeFile_def
      chmod_def mode_bits world_refresh_refused_def world_with_def world_with_document_def
      world0_def token_reply_def genuine_callback_def valid_tokens_def example_deps_def)

theorem getValidToken_refresh_failure_witness:
  "load (JSON_parse example_deps) world_refresh_refused = Resolved (Some expired_tokens) \<and>
   isExpired expired_tokens world_refresh_refused \<and>
   fst (refreshToken (config example_deps) (refresh_token expired_tokens) world_refresh_refused) =
     Rejected (TokenRefreshFailed 400 ''invalid_grant'') \<and>
   (case getValidToken example_deps world_refresh_refused of
      (r, w') \<Rightarrow>
        r = Resolved (valid_tokens\<lparr>expires_at := Finite 1700003601000\<rparr>) \<and>
        fs w' = fs (world_with (valid_tokens\<lparr>expires_at := Finite 1700003601000\<rparr>)) \<and>
        posted w' = [buildRefreshRequestBody example_config ''expired-refresh'',
                     buildTokenRequestBody example_config ''granted-code''])"
proof -
  have l: "load (JSON_parse example_deps) world_refresh_refused = Resolved (Some expired_tokens)"
    using load_expired_tokens
    by (simp add: example_deps_def load_def world_refresh_refused_def)
  have e: "isExpired expired_tokens world_refresh_refused"
    by (simp add: isExpired_def number_sub_def EXPIRY_BUFFER_MS_def expired_tokens_def world_refresh_refused_def
        world_with_def world_with_document_def world0_def)
  from getValidToken_refresh_failure [OF l e refresh_refused_outcome]
  have "getValidToken example_deps world_refresh_refused =
      doInteractiveAuth example_deps
        (console_error (Message ''Token refresh failed. Starting interactive auth...'')
           (world_refresh_refused
              \<lparr>posted := [buildRefreshRequestBody example_config ''expired-refresh''],
               token_endpoint := [token_reply]\<rparr>))"
    by blast
  with l e refresh_refused_outcome interactive_after_refusal show ?thesis by simp
qed

text \<open>
  C9. Whenever the store holds a token set that \<^verbatim>\<open>isExpired\<close> reports as not expired,
  \<^verbatim>\<open>getValidToken()\<close> returns that token set unchanged, performs zero network
  operations and leaves the store unmodified. The world after the call is the world
  before it: no request was posted, no endpoint answer consumed, no port bound, no
  browser started, no console line written, and the token file and its directory are
  untouched.
\<close>

theorem getValidToken_valid_stored:
  assumes "load (JSON_parse d) w = Resolved (Some t)"
    and "\<not> isExpired t w"
  shows "getValidToken d w = (Resolved t, w)"
  using assms by (simp add: getValidToken_def)

theorem getValidToken_valid_stored_witness:
  "load (JSON_parse example_deps) (world_with valid_tokens) = Resolved (Some valid_tokens) \<and>
   \<not> isExpired valid_tokens (world_with valid_tokens) \<and>
   getValidToken example_deps (world_with valid_tokens) =
     (Resolved valid_tokens, world_with valid_tokens)"
proof -
  have l: "load (JSON_parse example_deps) (world_with valid_tokens) = Resolved (Some valid_tokens)"
    using load_valid_tokens by (simp add: example_deps_def)
  have e: "\<not> isExpired valid_tokens (world_with valid_tokens)"
    by (simp add: isExpired_def number_sub_def EXPIRY_BUFFER_MS_def valid_tokens_def world_with_def
        world_with_document_def world0_def)
  from getValidToken_valid_stored [OF l e] l e show ?thesis by simp
qed

text \<open>
  C10. \<^verbatim>\<open>getAuthStatus()\<close> on a store holding a present but expired token set returns
  \<^verbatim>\<open>authenticated: false\<close> while still reporting the stored token's \<^verbatim>\<open>expires_at\<close> and
  \<^verbatim>\<open>scope\<close> as non-null values; \<^verbatim>\<open>expiresAt\<close> and \<^verbatim>\<open>scope\<close> are null only when no
  token set loads from the store at all. The call always resolves.
\<close>

theorem getAuthStatus_expired:
  "(load (JSON_parse d) w = Resolved (Some t) \<and> isExpired t w \<longrightarrow>
      getAuthStatus d w =
        Resolved \<lparr>authenticated = False,
                  expiresAt = Some (expires_at t),
                  status_scope = Some (scope t)\<rparr>) \<and>
   (\<exists>st. getAuthStatus d w = Resolved st \<and>
      (expiresAt st = None \<longleftrightarrow> load (JSON_parse d) w = Resolved None) \<and>
      (status_scope st = None \<longleftrightarrow> load (JSON_parse d) w = Resolved None))"
proof -
  obtain r where r: "load (JSON_parse d) w = Resolved r" using load_resolves by blast
  then show ?thesis by (cases r) (simp_all add: getAuthStatus_def)
qed

theorem getAuthStatus_expired_witness:
  "load (JSON_parse example_deps) (world_with expired_tokens) = Resolved (Some expired_tokens) \<and>
   isExpired expired_tokens (world_with expired_tokens) \<and>
   getAuthStatus example_deps (world_with expired_tokens) =
     Resolved \<lparr>authenticated = False,
               expiresAt = Some (Finite 1699999999000),
               status_scope = Some ''test''\<rparr> \<and>
   load (JSON_parse example_deps) world0 = Resolved None \<and>
   getAuthStatus example_deps world0 =
     Resolved \<lparr>authenticated = False, expiresAt = None, status_scope = None\<rparr>"
proof -
  have l: "load (JSON_parse example_deps) (world_with expired_tokens) =
      Resolved (Some expired_tokens)"
    using load_expired_tokens by (simp add: example_deps_def)
  have e: "isExpired expired_tokens (world_with expired_tokens)"
    by (simp add: isExpired_def number_sub_def EXPIRY_BUFFER_MS_def expired_tokens_def world_with_def
        world_with_document_def world0_def)
  have n: "load (JSON_parse example_deps) world0 = Resolved None"
    by (simp add: load_def world0_def)
  have s0: "getAuthStatus example_deps world0 =
      Resolved \<lparr>authenticated = False, expiresAt = None, status_scope = None\<rparr>"
    using n by (simp add: getAuthStatus_def)
  from getAuthStatus_expired [where d = example_deps and w = "world_with expired_tokens"
      and t = expired_tokens] l e n s0
  show ?thesis by (simp add: expired_tokens_def)
qed

section \<open>The two variants of the store compared\<close>

lemma is_string_iff: "is_string x \<longleftrightarrow> (\<exists>s. x = Some (JStr s))"
  by (cases x rule: is_string.cases) simp_all

lemma is_number_iff: "is_number x \<longleftrightarrow> (\<exists>n. x = Some (JNum n))"
  by (cases x rule: is_number.cases) simp_all

text \<open>The shape that \<^verbatim>\<open>isValidTokenData\<close> accepts.\<close>

lemma isValidTokenData_iff:
  "isValidTokenData v \<longleftrightarrow>
     (\<exists>a r e s. property v ''access_token'' = Some (JStr a) \<and>
                property v ''refresh_token'' = Some (JStr r) \<and>
                property v ''expires_at'' = Some (JNum e) \<and>
                property v ''scope'' = Some (JStr s))"
  by (cases v) (auto simp add: isValidTokenData_def is_string_iff is_number_iff)

lemma readFile_Rejected_iff:
  "(\<exists>e. readFile d = Rejected e) \<longleftrightarrow>
     d = NoDir \<or> (\<exists>dm. d = Dir dm None) \<or>
     (\<exists>dm f. d = Dir dm (Some f) \<and> \<not> (owner_can_search dm \<and> owner_can_read (mode f)))"
  by (cases d rule: readFile.cases) auto

text \<open>
  The validating \<^verbatim>\<open>load\<close> returns absent when the file is missing or unreadable, when
  its text is not JSON, and when the JSON value does not have the shape of token data.
\<close>

lemma load_absent:
  assumes "(\<exists>e. readFile (fs w) = Rejected e) \<or>
           (\<exists>data. readFile (fs w) = Resolved data \<and>
              (P data = None \<or> (\<exists>v. P data = Some v \<and> \<not> isValidTokenData v)))"
  shows "load P w = Resolved None"
  using assms by (auto simp add: load_def parse_or_throw_def)

text \<open>
  The variant of \<^verbatim>\<open>save\<close> without \<^verbatim>\<open>chmod\<close> sets the mode of a file it creates and
  leaves the mode of a file that exists.
\<close>

lemma save_creation_only_Resolved:
  assumes "save_creation_only S t w = (Resolved u, w')"
  shows "\<exists>dm m. fs w' = Dir dm (Some \<lparr>content = S (json_of_TokenData t), mode = m\<rparr>) \<and>
           (fs w = NoDir \<longrightarrow> dm = mode_0o700 \<and> m = mode_0o600) \<and>
           (\<forall>dm0. fs w = Dir dm0 None \<longrightarrow> dm = dm0 \<and> m = mode_0o600) \<and>
           (\<forall>dm0 f0. fs w = Dir dm0 (Some f0) \<longrightarrow> dm = dm0 \<and> m = mode f0)"
  using assms
  by (auto simp add: save_creation_only_def mkdir_def writeFile_def mode_bits
           split: directory.splits option.splits if_splits)

section \<open>Claims about the store: where the variants part\<close>

text \<open>
  C5. For every \<^verbatim>\<open>load()\<close> call, if the token file is missing, unreadable, not valid
  JSON, or valid JSON that does not match the token data shape, \<^verbatim>\<open>load()\<close> returns
  absent and never throws. The validating variant does so (\<open>load_absent\<close>,
  \<open>load_resolves\<close>). The non-validating variant does not: on a readable file holding a
  JSON object of another shape it returns that object.
\<close>

theorem load_nonvalidating_returns_foreign_document:
  "\<not> isValidTokenData foreign_document \<and>
   load_nonvalidating reference_parse (world_with_document foreign_document) =
     Resolved (Some foreign_document) \<and>
   load reference_parse (world_with_document foreign_document) = Resolved None"
  by (simp add: load_nonvalidating_def load_def parse_or_throw_def world_with_document_def
      mode_bits reference_roundtrip_foreign_document)
     (simp add: foreign_document_def isValidTokenData_def)

text \<open>
  C6. After every \<^verbatim>\<open>save(t)\<close> call, also when a file already exists at the target path
  with looser permissions, the token file ends up with mode \<^verbatim>\<open>0o600\<close>, and the parent
  directory is created with mode \<^verbatim>\<open>0o700\<close> if it did not exist; permissions are
  enforced on every save. The variant ending with \<^verbatim>\<open>chmod\<close> does so when it resolves
  (\<open>save_Resolved\<close>). The other variant does not: a file that exists with mode
  \<^verbatim>\<open>0o644\<close> gets the tokens and keeps its mode.
\<close>

theorem save_creation_only_keeps_loose_mode:
  "(case save_creation_only reference_stringify valid_tokens world_loose of
      (r, w') \<Rightarrow>
        r = Resolved () \<and>
        fs w' = Dir mode_0o755
                  (Some \<lparr>content = reference_stringify (json_of_TokenData valid_tokens),
                         mode = mode_0o644\<rparr>)) \<and>
   \<not> owner_only mode_0o644 \<and> mode_0o644 \<noteq> mode_0o600 \<and>
   (case save reference_stringify valid_tokens world_loose of
      (r, w') \<Rightarrow>
        r = Resolved () \<and>
        fs w' = Dir mode_0o755
                  (Some \<lparr>content = reference_stringify (json_of_TokenData valid_tokens),
                         mode = mode_0o600\<rparr>))"
  by (simp add: save_creation_only_def save_def mkdir_def writeFile_def chmod_def world_loose_def
      world0_def owner_can_search_def owner_can_write_def owner_only_def mode_0o755_def
      mode_0o644_def mode_0o600_def bit_iff_odd)

section \<open>Claims about the interactive flow\<close>

text \<open>
  C2. A callback whose \<^verbatim>\<open>state\<close> differs from the expected state resolves the listener
  as a state mismatch, never as success, even when it carries a \<^verbatim>\<open>code\<close>; and this
  holds for the listener that \<^verbatim>\<open>authorize\<close> uses. The validating listener never
  accepts such a callback (\<open>handler_state_mismatch\<close>, \<open>waitForCallback_state_Resolved\<close>).
  But \<^verbatim>\<open>authorize\<close> calls \<^verbatim>\<open>waitForCallback(port)\<close>: the state it generated and put
  into the address is not given to any listener. The listener of that signature does not
  read the state (\<open>handler_nostate_accepts\<close>): a callback carrying another state and a
  code is accepted, its code is exchanged, and \<^verbatim>\<open>authorize\<close> returns tokens.
\<close>

theorem authorize_nostate_accepts_foreign_state:
  "entropy world0 (drawn world0) \<noteq> ''attacker-state'' \<and>
   searchParams_get forged_callback ''state'' = Some ''attacker-state'' \<and>
   (case authorize_nostate example_config DEFAULT_PORT
           (world0\<lparr>inbound := [(1000, forged_callback)], token_endpoint := [token_reply]\<rparr>) of
      (r, w') \<Rightarrow>
        r = Resolved (valid_tokens\<lparr>expires_at := Finite 1700003601000\<rparr>) \<and>
        posted w' = [buildTokenRequestBody example_config ''injected-code''] \<and>
        served w' = [(200, SuccessPage)])"
  by (simp add: listener_defs client_defs world0_def forged_callback_def token_reply_def
      valid_tokens_def example_config_def)

text \<open>
  C3. \<^verbatim>\<open>authorize\<close> closes the callback listener before returning on every path, on
  success and on failure, so that the port is released. It closes the server it gets
  back on success. The listener with one parameter never closes its server itself
  (\<open>waitForCallback_nostate_bound\<close>): on a denial it rejects, nothing is returned to
  close, and \<^verbatim>\<open>authorize\<close> propagates the error with the port still bound, so that
  the next \<^verbatim>\<open>authorize\<close> fails to listen. (The validating listener closes its server
  before each rejection: \<open>waitForCallback_state_Rejected\<close>, \<open>authorize_state_outcome\<close>.)
\<close>

theorem authorize_nostate_denied_keeps_port:
  "(case authorize_nostate example_config DEFAULT_PORT
           (world0\<lparr>inbound := [(1000, denied_callback)]\<rparr>) of
      (r, w') \<Rightarrow>
        r = Rejected (OAuthError ''access_denied'') \<and>
        DEFAULT_PORT \<in> bound w' \<and>
        fst (authorize_nostate example_config DEFAULT_PORT w') =
          Rejected (ListenError EADDRINUSE))"
  by (simp add: listener_defs client_defs world0_def denied_callback_def example_config_def)

text \<open>
  C4. If no terminal outcome is reached within two minutes after the listener starts,
  the listener resolves as a timeout error and closes its server, releasing the port;
  no interactive authorization waits past the two minutes. The validating listener does
  so (\<open>waitForCallback_state_timeout\<close>, \<open>waitForCallback_state_rebinds\<close>,
  \<open>waitForCallback_state_elapsed\<close>). The listener with one parameter, the one
  \<^verbatim>\<open>authorize\<close> is written for, sets no timer (\<open>serve_nostate_pending\<close>): with no
  callback it stays pending for ever with the port bound, and so does \<^verbatim>\<open>authorize\<close>;
  a callback that arrives after 500 seconds is still accepted.
\<close>

theorem waitForCallback_nostate_waits_forever:
  "(case waitForCallback_nostate DEFAULT_PORT world0 of
      (r, w') \<Rightarrow> r = Pending \<and> DEFAULT_PORT \<in> bound w') \<and>
   fst (authorize_nostate example_config DEFAULT_PORT world0) = Pending \<and>
   (case waitForCallback_nostate DEFAULT_PORT (world0\<lparr>inbound := [(500000, genuine_callback)]\<rparr>) of
      (r, w') \<Rightarrow>
        r = Resolved (''granted-code'', DEFAULT_PORT) \<and>
        now w' = now world0 + 500000 \<and> int CALLBACK_TIMEOUT_MS < 500000)"
  by (simp add: listener_defs client_defs world0_def genuine_callback_def example_config_def)

end
